theory Spec2Isabelle
  imports Complex_Main "HOL-Library.Word" "HOL-Library.Signed_Division"
    "HOL-Library.State_Monad"
begin

unbundle bit_operations_syntax

text \<open>
  The repository holds two programs that render off screen through EGL and OpenGL ES
  and read the picture back: offscreen\_egl.cpp, with one rendering context, and
  multithreads.cpp, whose \<^verbatim>\<open>main\<close> runs two sessions on two threads over one display
  connection. The pixel format helper of the first program is modelled on machine
  words. The functions of both programs that talk to the driver are modelled as state
  transformers over the sequence of driver calls made, the lines printed and the status
  of the process, statement by statement in the order of the source.
\<close>

section \<open>Machine types of the two programs\<close>

text \<open>
  \<^verbatim>\<open>GLenum\<close> is \<^verbatim>\<open>unsigned int\<close>; \<^verbatim>\<open>GLsizei\<close>, \<^verbatim>\<open>GLint\<close>, \<^verbatim>\<open>EGLint\<close> and
  \<^verbatim>\<open>int\<close> are 32-bit two's complement integers; \<^verbatim>\<open>size_t\<close> is the 64-bit unsigned
  integer of the Linux target the sources are written for (\<^verbatim>\<open>gettid\<close>, \<^verbatim>\<open>pthread.h\<close>).
  Arithmetic on words wraps; a signed reading is \<open>sint\<close>, signed comparison is \<open><s\<close>
  and \<open>\<le>s\<close>. Signed overflow, which C++ leaves undefined, is modelled by the
  wrap-around that the target performs.
\<close>

type_synonym GLenum = "32 word"
type_synonym GLsizei = "32 word"
type_synonym c_int = "32 word"
type_synonym size_t = "64 word"

section \<open>Enumerants of the Khronos headers used by the pixel format helper\<close>

text \<open>
  The values are those of \<^verbatim>\<open><GLES/gl.h>\<close>, \<^verbatim>\<open><GLES2/gl2.h>\<close> and
  \<^verbatim>\<open><GLES2/gl2ext.h>\<close>; the source itself quotes \<^verbatim>\<open>GL_RGBA 0x1908\<close> and
  \<^verbatim>\<open>GL_UNSIGNED_BYTE 0x1401\<close>.
\<close>

definition GL_BYTE :: GLenum where "GL_BYTE = 0x1400"
definition GL_UNSIGNED_BYTE :: GLenum where "GL_UNSIGNED_BYTE = 0x1401"
definition GL_SHORT :: GLenum where "GL_SHORT = 0x1402"
definition GL_UNSIGNED_SHORT :: GLenum where "GL_UNSIGNED_SHORT = 0x1403"
definition GL_INT :: GLenum where "GL_INT = 0x1404"
definition GL_UNSIGNED_INT :: GLenum where "GL_UNSIGNED_INT = 0x1405"
definition GL_FLOAT :: GLenum where "GL_FLOAT = 0x1406"
definition GL_FIXED :: GLenum where "GL_FIXED = 0x140C"
definition GL_UNSIGNED_SHORT_4_4_4_4 :: GLenum where "GL_UNSIGNED_SHORT_4_4_4_4 = 0x8033"
definition GL_UNSIGNED_SHORT_5_5_5_1 :: GLenum where "GL_UNSIGNED_SHORT_5_5_5_1 = 0x8034"
definition GL_UNSIGNED_SHORT_5_6_5 :: GLenum where "GL_UNSIGNED_SHORT_5_6_5 = 0x8363"
definition GL_RGBA4_OES :: GLenum where "GL_RGBA4_OES = 0x8056"
definition GL_RGB5_A1_OES :: GLenum where "GL_RGB5_A1_OES = 0x8057"
definition GL_RGB565_OES :: GLenum where "GL_RGB565_OES = 0x8D62"
definition GL_UNSIGNED_INT_24_8_OES :: GLenum where "GL_UNSIGNED_INT_24_8_OES = 0x84FA"

definition GL_DEPTH_COMPONENT :: GLenum where "GL_DEPTH_COMPONENT = 0x1902"
definition GL_ALPHA :: GLenum where "GL_ALPHA = 0x1906"
definition GL_RGB :: GLenum where "GL_RGB = 0x1907"
definition GL_RGBA :: GLenum where "GL_RGBA = 0x1908"
definition GL_LUMINANCE :: GLenum where "GL_LUMINANCE = 0x1909"
definition GL_LUMINANCE_ALPHA :: GLenum where "GL_LUMINANCE_ALPHA = 0x190A"
definition GL_DEPTH_STENCIL_OES :: GLenum where "GL_DEPTH_STENCIL_OES = 0x84F9"
definition GL_BGRA_EXT :: GLenum where "GL_BGRA_EXT = 0x80E1"

section \<open>Pixel format helper (offscreen\_egl.cpp)\<close>

text \<open>
  Lines written by \<^verbatim>\<open>printf\<close>: the three diagnostics of the pixel format helper,
  the error reports of the driver checks with the error code and the label, the shader
  and program logs, and the progress messages (their text only, without the values
  formatted into them).
\<close>

datatype line =
    UnknownPixelType
  | UnknownPixelFormat
  | UnknownPixelSize GLsizei GLsizei GLenum GLenum
  | EGLErrorAt c_int string
  | GLErrorAt GLenum string
  | ErrorCompilingShader string
  | ErrorLinkingProgram string
  | Text string

text \<open>
  The case labels of the first \<^verbatim>\<open>switch\<close> of \<^verbatim>\<open>glUtilsPixelBitSize\<close>, group by
  group, and those of the second one (the labels under \<^verbatim>\<open>#if 0\<close> are not compiled).
\<close>

definition byte_types :: "GLenum list" where
  "byte_types = [GL_BYTE, GL_UNSIGNED_BYTE]"

definition short_packed_types :: "GLenum list" where
  "short_packed_types =
     [GL_SHORT, GL_UNSIGNED_SHORT, GL_UNSIGNED_SHORT_5_6_5, GL_UNSIGNED_SHORT_4_4_4_4,
      GL_UNSIGNED_SHORT_5_5_5_1, GL_RGB565_OES, GL_RGB5_A1_OES, GL_RGBA4_OES]"

definition int_float_types :: "GLenum list" where
  "int_float_types = [GL_INT, GL_UNSIGNED_INT, GL_FLOAT, GL_FIXED, GL_UNSIGNED_INT_24_8_OES]"

definition one_channel_formats :: "GLenum list" where
  "one_channel_formats = [GL_ALPHA, GL_LUMINANCE, GL_DEPTH_COMPONENT, GL_DEPTH_STENCIL_OES]"

definition four_channel_formats :: "GLenum list" where
  "four_channel_formats = [GL_RGBA, GL_BGRA_EXT]"

text \<open>The first \<^verbatim>\<open>switch\<close>: (componentsize, pixelsize, output).\<close>

definition type_switch :: "GLenum \<Rightarrow> c_int \<times> c_int \<times> line list" where
  "type_switch type =
     (if type \<in> set byte_types then (8, 0, [])
      else if type \<in> set short_packed_types then (0, 16, [])
      else if type \<in> set int_float_types then (0, 32, [])
      else (0, 0, [UnknownPixelType]))"

text \<open>The second \<^verbatim>\<open>switch\<close>, on the format: (components, output).\<close>

definition format_switch :: "GLenum \<Rightarrow> c_int \<times> line list" where
  "format_switch format =
     (if format \<in> set one_channel_formats then (1, [])
      else if format = GL_LUMINANCE_ALPHA then (2, [])
      else if format = GL_RGB then (3, [])
      else if format \<in> set four_channel_formats then (4, [])
      else (0, [UnknownPixelFormat]))"

definition glUtilsPixelBitSize :: "GLenum \<Rightarrow> GLenum \<Rightarrow> c_int \<times> line list" where
  "glUtilsPixelBitSize format type =
     (case type_switch type of (componentsize, pixelsize, out1) \<Rightarrow>
        if pixelsize = 0 then
          (case format_switch format of (components, out2) \<Rightarrow>
             (components * componentsize, out1 @ out2))
        else (pixelsize, out1))"

text \<open>
  \<^verbatim>\<open>pixelDataSize\<close>. \<^verbatim>\<open>pixelsize * width\<close> is an \<^verbatim>\<open>int\<close> product converted to
  \<^verbatim>\<open>size_t\<close> (sign extension); \<^verbatim>\<open>linesize / alignment\<close> is an unsigned 64-bit
  division whose quotient is cast to \<^verbatim>\<open>int\<close>, multiplied by \<^verbatim>\<open>alignment\<close> as an
  \<^verbatim>\<open>int\<close> and converted back; the returned product is a \<^verbatim>\<open>size_t\<close> narrowed to
  \<^verbatim>\<open>GLsizei\<close>. \<open>aligned_linesize\<close> is the value of the local variable of that name at
  the \<^verbatim>\<open>return\<close>.
\<close>

definition alignment :: c_int where
  "alignment = 4"

definition aligned_linesize :: "c_int \<Rightarrow> GLsizei \<Rightarrow> size_t" where
  "aligned_linesize pixelsize width =
     (let linesize = (scast (pixelsize * width) :: size_t);
          aligned = (scast ((ucast (linesize div scast alignment) :: c_int) * alignment) :: size_t)
      in if aligned < linesize then aligned + scast alignment else aligned)"

definition row_stride :: "GLsizei \<Rightarrow> GLenum \<Rightarrow> GLenum \<Rightarrow> size_t" where
  "row_stride width format type =
     aligned_linesize (signed_drop_bit 3 (fst (glUtilsPixelBitSize format type))) width"

definition pixelDataSize :: "GLsizei \<Rightarrow> GLsizei \<Rightarrow> GLenum \<Rightarrow> GLenum \<Rightarrow> GLsizei \<times> line list" where
  "pixelDataSize width height format type =
     (if width \<le>s 0 \<or> height \<le>s 0 then (0, [])
      else
        (case glUtilsPixelBitSize format type of (bits, out1) \<Rightarrow>
           let pixelsize = signed_drop_bit 3 bits;
               out2 = (if pixelsize = 0
                       then [UnknownPixelSize width height format type] else [])
           in (ucast (aligned_linesize pixelsize width * scast height), out1 @ out2)))"

text \<open>
  The buffer sizing written inline in the render paths (\<^verbatim>\<open>main\<close> of offscreen\_egl.cpp,
  \<^verbatim>\<open>thread_func_a\<close> and \<^verbatim>\<open>thread_func_b\<close> of multithreads.cpp); all of it is
  \<^verbatim>\<open>GLsizei\<close> arithmetic; \<open>c_rem\<close> is \<^verbatim>\<open>%\<close>, the remainder of the division that
  truncates towards zero.
\<close>

definition c_rem :: "c_int \<Rightarrow> c_int \<Rightarrow> c_int" where
  "c_rem a b = word_of_int (sint a smod sint b)"

definition nr_channels :: GLsizei where
  "nr_channels = 4"

definition inline_stride :: "GLsizei \<Rightarrow> GLsizei" where
  "inline_stride width =
     (let stride = nr_channels * width
      in stride + (if c_rem stride 4 \<noteq> 0 then 4 - c_rem stride 4 else 0))"

definition inline_bufferSize :: "GLsizei \<Rightarrow> GLsizei \<Rightarrow> GLsizei" where
  "inline_bufferSize width height = inline_stride width * height"

section \<open>The driver as seen by one thread of control\<close>

text \<open>
  EGL, OpenGL ES, the C library and the PNG writer are outside the two programs. A run of
  one thread is modelled by the sequence of calls it makes to them: every call is
  recorded with its name and with those integer arguments that a property below speaks
  about (attribute lists, object names, selectors, thread numbers); pointers to client
  memory, vertex data and the remaining arguments are not recorded. What a call gives
  back is chosen by the driver: \<open>ret\<close> is the returned value, \<open>outp\<close> the integer
  stored through the call's output pointer, \<open>chars\<close> the characters stored into a
  buffer. A driver is any function from the position of a call in the thread's call
  sequence and the name of the called entry point to such a reply, so nothing is assumed
  about how EGL or OpenGL behave.
\<close>

definition EGL_SUCCESS :: c_int where "EGL_SUCCESS = 0x3000"
definition EGL_BAD_ATTRIBUTE :: c_int where "EGL_BAD_ATTRIBUTE = 0x3004"
definition EGL_BAD_DISPLAY :: c_int where "EGL_BAD_DISPLAY = 0x3008"
definition EGL_BAD_SURFACE :: c_int where "EGL_BAD_SURFACE = 0x300D"
definition EGL_NONE :: c_int where "EGL_NONE = 0x3038"
definition EGL_HEIGHT :: c_int where "EGL_HEIGHT = 0x3056"
definition EGL_WIDTH :: c_int where "EGL_WIDTH = 0x3057"
definition EGL_CONTEXT_CLIENT_VERSION :: c_int where "EGL_CONTEXT_CLIENT_VERSION = 0x3098"
definition GL_NO_ERROR :: GLenum where "GL_NO_ERROR = 0"
definition GL_INVALID_OPERATION :: GLenum where "GL_INVALID_OPERATION = 0x0502"
definition GL_FRAGMENT_SHADER :: GLenum where "GL_FRAGMENT_SHADER = 0x8B30"
definition GL_VERTEX_SHADER :: GLenum where "GL_VERTEX_SHADER = 0x8B31"
definition GL_COMPILE_STATUS :: GLenum where "GL_COMPILE_STATUS = 0x8B81"
definition GL_LINK_STATUS :: GLenum where "GL_LINK_STATUS = 0x8B82"
definition GL_INFO_LOG_LENGTH :: GLenum where "GL_INFO_LOG_LENGTH = 0x8B84"

record reply =
  ret :: c_int
  outp :: c_int
  chars :: string

type_synonym driver = "nat \<Rightarrow> string \<Rightarrow> reply"

type_synonym event = "string \<times> c_int list"

text \<open>
  A thread runs until \<^verbatim>\<open>exit\<close> ends the process (\<open>Exited\<close> with the exit code) or an
  exception that nobody catches ends it (\<open>Terminated\<close>). Once it has stopped, the
  statements that follow in the text have no effect.
\<close>

datatype status = Running | Exited c_int | Terminated

record world =
  calls :: "event list"
  out :: "line list"
  status :: status

definition process_start :: world where
  "process_start = \<lparr>calls = [], out = [], status = Running\<rparr>"

definition call :: "driver \<Rightarrow> string \<Rightarrow> c_int list \<Rightarrow> (world, reply) state" where
  "call drv name args =
     State (\<lambda>w. (drv (length (calls w)) name,
                 if status w = Running then w\<lparr>calls := calls w @ [(name, args)]\<rparr> else w))"

definition printf :: "line \<Rightarrow> (world, unit) state" where
  "printf l = State (\<lambda>w. ((), if status w = Running then w\<lparr>out := out w @ [l]\<rparr> else w))"

definition exit :: "c_int \<Rightarrow> (world, unit) state" where
  "exit code = State (\<lambda>w. ((), if status w = Running then w\<lparr>status := Exited code\<rparr> else w))"

text \<open>
  \<^verbatim>\<open>std::vector<T> v(n)\<close> with an \<^verbatim>\<open>int\<close> count: a negative count converts to a
  \<^verbatim>\<open>size_t\<close> above \<^verbatim>\<open>max_size()\<close> and the constructor throws \<^verbatim>\<open>std::length_error\<close>,
  which neither program catches. Exhaustion of memory is not modelled.
\<close>

definition vector_ctor :: "c_int \<Rightarrow> (world, unit) state" where
  "vector_ctor n =
     State (\<lambda>w. ((), if status w = Running \<and> n <s 0 then w\<lparr>status := Terminated\<rparr> else w))"

abbreviation skip :: "(world, unit) state" where
  "skip \<equiv> State_Monad.return ()"

section \<open>offscreen\_egl.cpp\<close>

definition assertOpenGLError_single :: "driver \<Rightarrow> string \<Rightarrow> (world, unit) state" where
  "assertOpenGLError_single drv msg = do {
     error \<leftarrow> call drv ''glGetError'' [];
     if ret error \<noteq> GL_NO_ERROR then printf (GLErrorAt (ret error) msg) else skip
   }"

definition assertEGLError_single :: "driver \<Rightarrow> string \<Rightarrow> (world, unit) state" where
  "assertEGLError_single drv msg = do {
     error \<leftarrow> call drv ''eglGetError'' [];
     if ret error \<noteq> EGL_SUCCESS then printf (EGLErrorAt (ret error) msg) else skip
   }"

text \<open>
  \<^verbatim>\<open>LoadShader\<close> has the same text in both files. The source string goes to the
  driver, whose verdict is the reply to the \<^verbatim>\<open>GL_COMPILE_STATUS\<close> query.
\<close>

definition LoadShader :: "driver \<Rightarrow> GLenum \<Rightarrow> string \<Rightarrow> (world, c_int) state" where
  "LoadShader drv type shaderSrc = do {
     created \<leftarrow> call drv ''glCreateShader'' [type];
     let shader = ret created;
     if shader = 0 then State_Monad.return 0
     else do {
       call drv ''glShaderSource'' [shader];
       call drv ''glCompileShader'' [shader];
       compiled \<leftarrow> call drv ''glGetShaderiv'' [shader, GL_COMPILE_STATUS];
       if outp compiled = 0 then do {
         infoLen \<leftarrow> call drv ''glGetShaderiv'' [shader, GL_INFO_LOG_LENGTH];
         (if 1 <s outp infoLen then do {
            infoLog \<leftarrow> call drv ''glGetShaderInfoLog'' [shader, outp infoLen];
            printf (ErrorCompilingShader (chars infoLog))
          } else skip);
         call drv ''glDeleteShader'' [shader];
         State_Monad.return 0
       } else State_Monad.return shader
     }
   }"

definition vShaderStr :: string where
  "vShaderStr = ''#version 300 es layout(location = 0) in vec4 vPosition; void main() { gl_Position = vPosition; }''"

definition fShaderStr :: string where
  "fShaderStr = ''#version 300 es precision mediump float; out vec4 fragColor; void main() { fragColor = vec4 ( 1.0, 0.0, 0.0, 1.0 ); }''"

definition init_triangle :: "driver \<Rightarrow> (world, c_int) state" where
  "init_triangle drv = do {
     vertexShader \<leftarrow> LoadShader drv GL_VERTEX_SHADER vShaderStr;
     fragmentShader \<leftarrow> LoadShader drv GL_FRAGMENT_SHADER fShaderStr;
     created \<leftarrow> call drv ''glCreateProgram'' [];
     let programObject = ret created;
     if programObject = 0 then State_Monad.return 0
     else do {
       call drv ''glAttachShader'' [programObject, vertexShader];
       call drv ''glAttachShader'' [programObject, fragmentShader];
       call drv ''glLinkProgram'' [programObject];
       linked \<leftarrow> call drv ''glGetProgramiv'' [programObject, GL_LINK_STATUS];
       if outp linked = 0 then do {
         infoLen \<leftarrow> call drv ''glGetProgramiv'' [programObject, GL_INFO_LOG_LENGTH];
         (if 1 <s outp infoLen then do {
            infoLog \<leftarrow> call drv ''glGetProgramInfoLog'' [programObject, outp infoLen];
            printf (ErrorLinkingProgram (chars infoLog))
          } else skip);
         call drv ''glDeleteProgram'' [programObject];
         State_Monad.return 0
       } else State_Monad.return programObject
     }
   }"

definition draw_triangle_single :: "driver \<Rightarrow> GLsizei \<Rightarrow> GLsizei \<Rightarrow> (world, unit) state" where
  "draw_triangle_single drv width height = do {
     program \<leftarrow> init_triangle drv;
     call drv ''glViewport'' [0, 0, width, height];
     call drv ''glClear'' [];
     call drv ''glUseProgram'' [program];
     call drv ''glVertexAttribPointer'' [];
     call drv ''glEnableVertexAttribArray'' [];
     call drv ''glDrawArrays'' [];
     skip
   }"

text \<open>
  \<^verbatim>\<open>main\<close>, lines 301 to 353: display, configuration, context, surface, activation.
  The result tells whether \<^verbatim>\<open>main\<close> goes on (\<open>False\<close>: it has returned 0).
\<close>

definition es_version :: c_int where
  "es_version = 3"

definition egl_setup_single :: "driver \<Rightarrow> GLsizei \<Rightarrow> GLsizei \<Rightarrow> (world, bool) state" where
  "egl_setup_single drv width height = do {
     call drv ''eglGetDisplay'' [];
     assertEGLError_single drv ''eglGetDisplay'';
     call drv ''eglInitialize'' [];
     assertEGLError_single drv ''eglInitialize'';
     counted \<leftarrow> call drv ''eglGetConfigs'' [];
     let allConfigCount = outp counted;
     assertEGLError_single drv ''eglGetConfigs'';
     vector_ctor allConfigCount;
     chosen \<leftarrow> call drv ''eglChooseConfig'' [];
     if ret chosen = 0 \<or> (outp chosen = 0 \<or> allConfigCount <s outp chosen) then do {
       assertEGLError_single drv ''eglChooseConfig'';
       State_Monad.return False
     } else do {
       chosen1 \<leftarrow> call drv ''eglChooseConfig'' [];
       if ret chosen1 = 0 \<or> outp chosen1 = 0 then do {
         assertEGLError_single drv ''eglChooseConfig'';
         State_Monad.return False
       } else do {
         call drv ''eglBindAPI'' [];
         assertEGLError_single drv ''eglBindAPI'';
         call drv ''eglCreateContext'' [EGL_CONTEXT_CLIENT_VERSION, es_version, EGL_NONE];
         assertEGLError_single drv ''eglCreateContext'';
         call drv ''eglCreatePbufferSurface'' [EGL_WIDTH, width, EGL_HEIGHT, height, EGL_NONE];
         assertEGLError_single drv ''eglCreatePbufferSurface'';
         call drv ''eglMakeCurrent'' [];
         assertEGLError_single drv ''eglMakeCurrent'';
         State_Monad.return True
       }
     }
   }"

text \<open>Lines 358 to 401: framebuffer, colour texture, attachment, read format query.\<close>

definition render_target_single :: "driver \<Rightarrow> GLsizei \<Rightarrow> GLsizei \<Rightarrow> (world, c_int \<times> c_int) state" where
  "render_target_single drv width height = do {
     fb \<leftarrow> call drv ''glGenFramebuffers'' [];
     let frameBuffer = outp fb;
     call drv ''glBindFramebuffer'' [frameBuffer];
     assertOpenGLError_single drv ''glBindFramebuffer'';
     tx \<leftarrow> call drv ''glGenTextures'' [];
     let tex = outp tx;
     call drv ''glBindTexture'' [tex];
     call drv ''glTexImage2D'' [GL_RGB, width, height, GL_RGB, GL_UNSIGNED_BYTE];
     assertOpenGLError_single drv ''glTexImage2D'';
     call drv ''glTexParameteri'' [];
     assertOpenGLError_single drv ''glTexParameteri GL_TEXTURE_MIN_FILTER'';
     call drv ''glTexParameteri'' [];
     assertOpenGLError_single drv ''glTexParameteri GL_TEXTURE_MAG_FILTER'';
     call drv ''glTexParameteri'' [];
     assertOpenGLError_single drv ''glTexParameteri GL_TEXTURE_WRAP_S'';
     call drv ''glTexParameteri'' [];
     assertOpenGLError_single drv ''glTexParameteri GL_TEXTURE_WRAP_T'';
     call drv ''glBindTexture'' [0];
     assertOpenGLError_single drv ''glBindTexture'';
     call drv ''glFramebufferTexture2D'' [tex];
     assertOpenGLError_single drv ''glFramebufferTexture2D'';
     call drv ''glGetIntegerv'' [];
     call drv ''glGetIntegerv'' [];
     printf (Text ''support color format'');
     State_Monad.return (frameBuffer, tex)
   }"

text \<open>Lines 417 to 434: buffer sizing, readback, PNG output.\<close>

definition readback_single :: "driver \<Rightarrow> GLsizei \<Rightarrow> GLsizei \<Rightarrow> c_int \<Rightarrow> (world, unit) state" where
  "readback_single drv width height frameBuffer = do {
     let stride = inline_stride width;
     let bufferSize = inline_bufferSize width height;
     vector_ctor bufferSize;
     call drv ''glBindFramebuffer'' [frameBuffer];
     assertOpenGLError_single drv ''glBindFramebuffer'';
     call drv ''glReadPixels'' [0, 0, width, height, GL_RGBA, GL_UNSIGNED_BYTE];
     assertOpenGLError_single drv ''glReadPixels'';
     call drv ''stbi_write_png img.png'' [width, height, nr_channels, stride];
     call drv ''glBindFramebuffer'' [0];
     skip
   }"

text \<open>Lines 438 to 448: the teardown.\<close>

definition teardown_single :: "driver \<Rightarrow> c_int \<Rightarrow> c_int \<Rightarrow> (world, unit) state" where
  "teardown_single drv frameBuffer tex = do {
     call drv ''glDeleteFramebuffers'' [frameBuffer];
     call drv ''glDeleteTextures'' [tex];
     call drv ''eglDestroySurface'' [];
     assertEGLError_single drv ''eglDestroySurface'';
     call drv ''eglDestroyContext'' [];
     assertEGLError_single drv ''eglDestroyContext'';
     call drv ''eglTerminate'' [];
     assertEGLError_single drv ''eglTerminate''
   }"

definition main_single :: "driver \<Rightarrow> (world, c_int) state" where
  "main_single drv = do {
     let width = 512;
     let height = 512;
     go_on \<leftarrow> egl_setup_single drv width height;
     if \<not> go_on then State_Monad.return 0
     else do {
       (frameBuffer, tex) \<leftarrow> render_target_single drv width height;
       draw_triangle_single drv width height;
       readback_single drv width height frameBuffer;
       teardown_single drv frameBuffer tex;
       State_Monad.return 0
     }
   }"

section \<open>multithreads.cpp\<close>

definition assertOpenGLError_mt :: "driver \<Rightarrow> string \<Rightarrow> (world, unit) state" where
  "assertOpenGLError_mt drv msg = do {
     error \<leftarrow> call drv ''glGetError'' [];
     if ret error \<noteq> GL_NO_ERROR then do {
       printf (GLErrorAt (ret error) msg);
       exit (- 1)
     } else skip
   }"

definition assertEGLError_mt :: "driver \<Rightarrow> string \<Rightarrow> (world, unit) state" where
  "assertEGLError_mt drv msg = do {
     error \<leftarrow> call drv ''eglGetError'' [];
     if ret error \<noteq> EGL_SUCCESS then do {
       printf (EGLErrorAt (ret error) msg);
       exit (- 1)
     } else skip
   }"

definition CompileProgram :: "driver \<Rightarrow> string \<Rightarrow> string \<Rightarrow> (world, c_int) state" where
  "CompileProgram drv vsSource fsSource = do {
     vertexShader \<leftarrow> LoadShader drv GL_VERTEX_SHADER vsSource;
     fragmentShader \<leftarrow> LoadShader drv GL_FRAGMENT_SHADER fsSource;
     created \<leftarrow> call drv ''glCreateProgram'' [];
     let programObject = ret created;
     if programObject = 0 then State_Monad.return 0
     else do {
       call drv ''glAttachShader'' [programObject, vertexShader];
       call drv ''glAttachShader'' [programObject, fragmentShader];
       call drv ''glLinkProgram'' [programObject];
       linked \<leftarrow> call drv ''glGetProgramiv'' [programObject, GL_LINK_STATUS];
       if outp linked = 0 then do {
         infoLen \<leftarrow> call drv ''glGetProgramiv'' [programObject, GL_INFO_LOG_LENGTH];
         (if 1 <s outp infoLen then do {
            infoLog \<leftarrow> call drv ''glGetProgramInfoLog'' [programObject, outp infoLen];
            printf (ErrorLinkingProgram (chars infoLog))
          } else skip);
         call drv ''glDeleteProgram'' [programObject];
         State_Monad.return 0
       } else State_Monad.return programObject
     }
   }"

definition draw_triangle_mt :: "driver \<Rightarrow> GLsizei \<Rightarrow> GLsizei \<Rightarrow> (world, unit) state" where
  "draw_triangle_mt drv width height = do {
     program \<leftarrow> CompileProgram drv vShaderStr fShaderStr;
     call drv ''glViewport'' [0, 0, width, height];
     call drv ''glClear'' [];
     call drv ''glUseProgram'' [program];
     call drv ''glVertexAttribPointer'' [];
     call drv ''glEnableVertexAttribArray'' [];
     call drv ''glDrawArrays'' [];
     skip
   }"

text \<open>
  \<^verbatim>\<open>struct GLContext\<close>; the display and the configuration are opaque handles that the
  threads only pass on. Field names carry a prefix, since a field name is a constant.
\<close>

record GLContext =
  ctx_width :: c_int
  ctx_height :: c_int

definition CreateSimpleTexture2D :: "driver \<Rightarrow> (world, c_int) state" where
  "CreateSimpleTexture2D drv = do {
     call drv ''glPixelStorei'' [];
     tx \<leftarrow> call drv ''glGenTextures'' [];
     let texture = outp tx;
     call drv ''glBindTexture'' [texture];
     call drv ''glTexImage2D'' [GL_RGB, 2, 2, GL_RGB, GL_UNSIGNED_BYTE];
     call drv ''glTexParameteri'' [];
     call drv ''glTexParameteri'' [];
     State_Monad.return texture
   }"

subsection \<open>Session A: \<^verbatim>\<open>thread_func_a\<close>\<close>

text \<open>
  Lines 283 to 300: surface, context, activation. \<open>False\<close>: the function has returned.
\<close>

definition thread_a_egl_setup :: "driver \<Rightarrow> GLContext \<Rightarrow> (world, bool) state" where
  "thread_a_egl_setup drv glCtx = do {
     printf (Text ''Thread inside'');
     call drv ''eglCreatePbufferSurface''
       [EGL_WIDTH, ctx_width glCtx, EGL_HEIGHT, ctx_height glCtx, EGL_NONE];
     assertEGLError_mt drv ''eglCreatePbufferSurface'';
     call drv ''eglCreateContext'' [EGL_CONTEXT_CLIENT_VERSION, 2, EGL_NONE];
     assertEGLError_mt drv ''eglCreateContext'';
     printf (Text ''thread display context surface'');
     current \<leftarrow> call drv ''eglMakeCurrent'' [];
     if ret current = 0 then do {
       assertEGLError_mt drv ''eglMakeCurrent'';
       printf (Text ''failed to create context'');
       State_Monad.return False
     } else State_Monad.return True
   }"

definition kVS :: string where
  "kVS = ''attribute vec4 a_position; attribute vec2 a_texCoord; varying vec2 v_texCoord; void main() { gl_Position = a_position; v_texCoord = a_texCoord; }''"

definition kFS :: string where
  "kFS = ''precision mediump float; varying vec2 v_texCoord; uniform sampler2D s_texture; void main() { gl_FragColor = texture2D(s_texture, v_texCoord); }''"

text \<open>The locals of \<^verbatim>\<open>thread_func_a\<close> that the loop and the teardown use.\<close>

record session_a =
  a_frameBuffer :: c_int
  a_tex :: c_int
  a_stride :: c_int
  a_mProgram :: c_int
  a_mTexture :: c_int

text \<open>
  Lines 305 to 380: render target, readback buffer, program, texture. \<open>None\<close>: the
  function has returned because no program was built.
\<close>

definition thread_a_resources :: "driver \<Rightarrow> GLContext \<Rightarrow> (world, session_a option) state" where
  "thread_a_resources drv glCtx = do {
     fb \<leftarrow> call drv ''glGenFramebuffers'' [];
     call drv ''glBindFramebuffer'' [outp fb];
     assertOpenGLError_mt drv ''glBindFramebuffer'';
     tx \<leftarrow> call drv ''glGenTextures'' [];
     call drv ''glBindTexture'' [outp tx];
     call drv ''glTexImage2D'' [GL_RGB, ctx_width glCtx, ctx_height glCtx, GL_RGB, GL_UNSIGNED_BYTE];
     assertOpenGLError_mt drv ''glTexImage2D'';
     call drv ''glTexParameteri'' [];
     assertOpenGLError_mt drv ''glTexParameteri GL_TEXTURE_MIN_FILTER'';
     call drv ''glTexParameteri'' [];
     assertOpenGLError_mt drv ''glTexParameteri GL_TEXTURE_MAG_FILTER'';
     call drv ''glTexParameteri'' [];
     assertOpenGLError_mt drv ''glTexParameteri GL_TEXTURE_WRAP_S'';
     call drv ''glTexParameteri'' [];
     assertOpenGLError_mt drv ''glTexParameteri GL_TEXTURE_WRAP_T'';
     call drv ''glBindTexture'' [0];
     assertOpenGLError_mt drv ''glBindTexture'';
     call drv ''glFramebufferTexture2D'' [outp tx];
     assertOpenGLError_mt drv ''glFramebufferTexture2D'';
     call drv ''glBindFramebuffer'' [0];
     vector_ctor (inline_bufferSize (ctx_width glCtx) (ctx_height glCtx));
     program \<leftarrow> CompileProgram drv kVS kFS;
     if program = 0 then State_Monad.return None
     else do {
       call drv ''glGetAttribLocation'' [program];
       call drv ''glGetAttribLocation'' [program];
       call drv ''glGetUniformLocation'' [program];
       texture \<leftarrow> CreateSimpleTexture2D drv;
       call drv ''glClearColor'' [];
       State_Monad.return (Some \<lparr>a_frameBuffer = outp fb, a_tex = outp tx,
         a_stride = inline_stride (ctx_width glCtx), a_mProgram = program,
         a_mTexture = texture\<rparr>)
     }
   }"

text \<open>Lines 384 to 441: one pass through the body of the \<^verbatim>\<open>while\<close> loop.\<close>

definition thread_a_iteration :: "driver \<Rightarrow> GLContext \<Rightarrow> session_a \<Rightarrow> (world, unit) state" where
  "thread_a_iteration drv glCtx a = do {
     call drv ''glBindFramebuffer'' [a_frameBuffer a];
     assertOpenGLError_mt drv ''glBindFramebuffer'';
     call drv ''glViewport'' [0, 0, ctx_width glCtx, ctx_height glCtx];
     call drv ''glClear'' [];
     call drv ''glUseProgram'' [a_mProgram a];
     call drv ''glVertexAttribPointer'' [];
     call drv ''glVertexAttribPointer'' [];
     call drv ''glEnableVertexAttribArray'' [];
     call drv ''glEnableVertexAttribArray'' [];
     call drv ''glActiveTexture'' [];
     call drv ''glBindTexture'' [a_mTexture a];
     call drv ''glUniform1i'' [];
     call drv ''eglGetCurrentDisplay'' [];
     call drv ''eglGetCurrentSurface'' [];
     call drv ''eglGetCurrentContext'' [];
     printf (Text ''thread display context surface'');
     call drv ''glDrawElements'' [];
     assertOpenGLError_mt drv ''glDrawElements'';
     call drv ''glBindTexture'' [0];
     call drv ''glPixelStorei'' [];
     assertOpenGLError_mt drv ''glPixelStorei'';
     call drv ''glReadPixels'' [0, 0, ctx_width glCtx, ctx_height glCtx, GL_RGBA, GL_UNSIGNED_BYTE];
     assertOpenGLError_mt drv ''glReadPixels'';
     call drv ''stbi_write_png img.png'' [ctx_width glCtx, ctx_height glCtx, nr_channels, a_stride a];
     call drv ''glBindFramebuffer'' [0];
     printf (Text ''finish saving img.png'')
   }"

text \<open>
  \<^verbatim>\<open>int mRunning = 1; while (mRunning) { ... }\<close>. The body never assigns \<^verbatim>\<open>mRunning\<close>,
  so the loop hands it on unchanged. A loop that does not come back has no result
  (\<open>None\<close>); it ends early only when a check inside the body has ended the process.
\<close>

partial_function (option) render_loop ::
  "driver \<Rightarrow> GLContext \<Rightarrow> session_a \<Rightarrow> c_int \<Rightarrow> world \<Rightarrow> world option" where
  "render_loop drv glCtx a mRunning w =
     (if status w \<noteq> Running then Some w
      else if mRunning \<noteq> 0
        then render_loop drv glCtx a mRunning
               (snd (run_state (thread_a_iteration drv glCtx a) w))
        else Some w)"

text \<open>Lines 443 to 455: the teardown after the loop.\<close>

definition thread_a_teardown :: "driver \<Rightarrow> session_a \<Rightarrow> (world, unit) state" where
  "thread_a_teardown drv a = do {
     call drv ''glDeleteFramebuffers'' [a_frameBuffer a];
     call drv ''glDeleteTextures'' [a_tex a];
     call drv ''glDeleteProgram'' [a_mProgram a];
     call drv ''glDeleteTextures'' [a_mTexture a];
     call drv ''eglDestroySurface'' [];
     assertEGLError_mt drv ''eglDestroySurface'';
     call drv ''eglDestroyContext'' [];
     assertEGLError_mt drv ''eglDestroyContext''
   }"

definition thread_func_a :: "driver \<Rightarrow> GLContext \<Rightarrow> world \<Rightarrow> world option" where
  "thread_func_a drv glCtx w =
     (case run_state (thread_a_egl_setup drv glCtx) w of
        (False, w1) \<Rightarrow> Some w1
      | (True, w1) \<Rightarrow>
          (case run_state (thread_a_resources drv glCtx) w1 of
             (None, w2) \<Rightarrow> Some w2
           | (Some a, w2) \<Rightarrow>
               (case render_loop drv glCtx a 1 w2 of
                  None \<Rightarrow> None
                | Some w3 \<Rightarrow> Some (snd (run_state (thread_a_teardown drv a) w3)))))"

subsection \<open>Session B: \<^verbatim>\<open>thread_func_b\<close>\<close>

text \<open>Lines 474 to 487: context, surface, activation.\<close>

definition thread_b_egl_setup :: "driver \<Rightarrow> GLContext \<Rightarrow> (world, unit) state" where
  "thread_b_egl_setup drv glCtx = do {
     printf (Text ''Thread inside'');
     call drv ''eglCreateContext'' [EGL_CONTEXT_CLIENT_VERSION, 2, EGL_NONE];
     assertEGLError_mt drv ''eglCreateContext'';
     call drv ''eglCreatePbufferSurface''
       [EGL_WIDTH, ctx_width glCtx, EGL_HEIGHT, ctx_height glCtx, EGL_NONE];
     assertEGLError_mt drv ''eglCreatePbufferSurface'';
     call drv ''eglMakeCurrent'' [];
     assertEGLError_mt drv ''eglMakeCurrent''
   }"

text \<open>Lines 492 to 556: render target, one draw, one readback.\<close>

definition thread_b_render :: "driver \<Rightarrow> GLContext \<Rightarrow> (world, c_int \<times> c_int) state" where
  "thread_b_render drv glCtx = do {
     fb \<leftarrow> call drv ''glGenFramebuffers'' [];
     call drv ''glBindFramebuffer'' [outp fb];
     assertOpenGLError_mt drv ''glBindFramebuffer'';
     tx \<leftarrow> call drv ''glGenTextures'' [];
     call drv ''glBindTexture'' [outp tx];
     call drv ''glTexImage2D'' [GL_RGB, ctx_width glCtx, ctx_height glCtx, GL_RGB, GL_UNSIGNED_BYTE];
     assertOpenGLError_mt drv ''glTexImage2D'';
     call drv ''glTexParameteri'' [];
     assertOpenGLError_mt drv ''glTexParameteri GL_TEXTURE_MIN_FILTER'';
     call drv ''glTexParameteri'' [];
     assertOpenGLError_mt drv ''glTexParameteri GL_TEXTURE_MAG_FILTER'';
     call drv ''glTexParameteri'' [];
     assertOpenGLError_mt drv ''glTexParameteri GL_TEXTURE_WRAP_S'';
     call drv ''glTexParameteri'' [];
     assertOpenGLError_mt drv ''glTexParameteri GL_TEXTURE_WRAP_T'';
     call drv ''glBindTexture'' [0];
     assertOpenGLError_mt drv ''glBindTexture'';
     call drv ''glFramebufferTexture2D'' [outp tx];
     assertOpenGLError_mt drv ''glFramebufferTexture2D'';
     draw_triangle_mt drv (ctx_width glCtx) (ctx_height glCtx);
     vector_ctor (inline_bufferSize (ctx_width glCtx) (ctx_height glCtx));
     call drv ''glBindFramebuffer'' [outp fb];
     assertOpenGLError_mt drv ''glBindFramebuffer'';
     call drv ''glReadPixels'' [0, 0, ctx_width glCtx, ctx_height glCtx, GL_RGBA, GL_UNSIGNED_BYTE];
     assertOpenGLError_mt drv ''glReadPixels'';
     call drv ''stbi_write_png img2.png''
       [ctx_width glCtx, ctx_height glCtx, nr_channels, inline_stride (ctx_width glCtx)];
     call drv ''glBindFramebuffer'' [0];
     printf (Text ''finish saving img2.png'');
     State_Monad.return (outp fb, outp tx)
   }"

text \<open>Lines 560 to 567: the teardown.\<close>

definition thread_b_teardown :: "driver \<Rightarrow> c_int \<Rightarrow> c_int \<Rightarrow> (world, unit) state" where
  "thread_b_teardown drv frameBuffer tex = do {
     call drv ''glDeleteFramebuffers'' [frameBuffer];
     call drv ''glDeleteTextures'' [tex];
     call drv ''eglDestroySurface'' [];
     assertEGLError_mt drv ''eglDestroySurface'';
     call drv ''eglDestroyContext'' [];
     assertEGLError_mt drv ''eglDestroyContext''
   }"

definition thread_func_b :: "driver \<Rightarrow> GLContext \<Rightarrow> (world, unit) state" where
  "thread_func_b drv glCtx = do {
     thread_b_egl_setup drv glCtx;
     (frameBuffer, tex) \<leftarrow> thread_b_render drv glCtx;
     thread_b_teardown drv frameBuffer tex
   }"

subsection \<open>The coordinator: \<^verbatim>\<open>main\<close>\<close>

text \<open>Lines 583 to 615: display and configuration. \<open>False\<close>: \<^verbatim>\<open>main\<close> has returned 0.\<close>

definition egl_setup_mt :: "driver \<Rightarrow> (world, bool) state" where
  "egl_setup_mt drv = do {
     call drv ''eglGetDisplay'' [];
     assertEGLError_mt drv ''eglGetDisplay'';
     call drv ''eglInitialize'' [];
     assertEGLError_mt drv ''eglInitialize'';
     counted \<leftarrow> call drv ''eglGetConfigs'' [];
     let allConfigCount = outp counted;
     assertEGLError_mt drv ''eglGetConfigs'';
     vector_ctor allConfigCount;
     chosen \<leftarrow> call drv ''eglChooseConfig'' [];
     if ret chosen = 0 \<or> (outp chosen = 0 \<or> allConfigCount <s outp chosen) then do {
       assertEGLError_mt drv ''eglChooseConfig'';
       State_Monad.return False
     } else do {
       chosen1 \<leftarrow> call drv ''eglChooseConfig'' [];
       if ret chosen1 = 0 \<or> outp chosen1 = 0 then do {
         assertEGLError_mt drv ''eglChooseConfig'';
         State_Monad.return False
       } else do {
         call drv ''eglBindAPI'' [];
         assertEGLError_mt drv ''eglBindAPI'';
         State_Monad.return True
       }
     }
   }"

text \<open>
  \<^verbatim>\<open>sleep\<close> takes an \<^verbatim>\<open>unsigned int\<close>; the argument written in the source is the
  \<^verbatim>\<open>double\<close> literal \<^verbatim>\<open>0.5\<close>, which the call converts by discarding the fractional part.
  The literal is exactly one half, so a rational number stands for it.
\<close>

definition unsigned_of_double :: "rat \<Rightarrow> c_int" where
  "unsigned_of_double x = word_of_int (if 0 \<le> x then \<lfloor>x\<rfloor> else \<lceil>x\<rceil>)"

definition threadA :: c_int where "threadA = 0"
definition threadB :: c_int where "threadB = 1"

text \<open>
  Lines 660 to 668. \<^verbatim>\<open>pthread_create\<close> starts a session, which then runs on a call
  sequence of its own (\<open>thread_func_a\<close>, \<open>thread_func_b\<close>); \<^verbatim>\<open>pthread_join\<close> comes back
  when that session has returned. How the three call sequences interleave is not
  modelled.
\<close>

definition coordinator :: "driver \<Rightarrow> (world, unit) state" where
  "coordinator drv = do {
     call drv ''pthread_create'' [threadA];
     call drv ''sleep'' [unsigned_of_double (1 / 2)];
     call drv ''pthread_create'' [threadB];
     call drv ''pthread_join'' [threadA];
     call drv ''pthread_join'' [threadB];
     call drv ''eglTerminate'' [];
     assertEGLError_mt drv ''eglTerminate''
   }"

definition main_mt :: "driver \<Rightarrow> (world, c_int) state" where
  "main_mt drv = do {
     go_on \<leftarrow> egl_setup_mt drv;
     if \<not> go_on then State_Monad.return 0
     else do {
       printf (Text ''main thread inside'');
       call drv ''glGetIntegerv'' [];
       call drv ''glGetIntegerv'' [];
       printf (Text ''support color format'');
       coordinator drv;
       State_Monad.return 0
     }
   }"

section \<open>Drivers used as test inputs\<close>

text \<open>
  \<open>quiet_driver\<close> reports no error and answers every other call with 1: a true
  \<^verbatim>\<open>EGLBoolean\<close>, one configuration, object name 1, status 1, an empty info log.
  \<open>failing_at\<close> makes the call at one position of the sequence answer differently.
\<close>

definition quiet_driver :: driver where
  "quiet_driver i name =
     (if name = ''eglGetError'' then \<lparr>ret = EGL_SUCCESS, outp = 0, chars = []\<rparr>
      else if name = ''glGetError'' then \<lparr>ret = GL_NO_ERROR, outp = 0, chars = []\<rparr>
      else \<lparr>ret = 1, outp = 1, chars = []\<rparr>)"

definition failing_at :: "nat \<Rightarrow> reply \<Rightarrow> driver" where
  "failing_at k r i name = (if i = k then r else quiet_driver i name)"

definition glCtx512 :: GLContext where
  "glCtx512 = \<lparr>ctx_width = 512, ctx_height = 512\<rparr>"

definition a_session1 :: session_a where
  "a_session1 = \<lparr>a_frameBuffer = 1, a_tex = 1, a_stride = 2048, a_mProgram = 1, a_mTexture = 1\<rparr>"

definition compile_fails :: driver where
  "compile_fails i name =
     (if i = 3 then \<lparr>ret = 0, outp = 0, chars = []\<rparr>
      else if i = 4 then \<lparr>ret = 0, outp = 6, chars = []\<rparr>
      else if i = 5 then \<lparr>ret = 0, outp = 0, chars = ''error''\<rparr>
      else quiet_driver i name)"

text \<open>
  Drivers in which the check after one call finds an error: after \<^verbatim>\<open>eglCreateContext\<close>
  in a session of multithreads.cpp (position 1) and in \<^verbatim>\<open>main\<close> of offscreen\_egl.cpp
  (position 11), after \<^verbatim>\<open>eglDestroySurface\<close> in a teardown started on an empty call
  sequence, after the first \<^verbatim>\<open>glBindFramebuffer\<close> of the loop of session A.
\<close>

definition create_context_fails :: driver where
  "create_context_fails = failing_at 1 \<lparr>ret = EGL_BAD_ATTRIBUTE, outp = 0, chars = []\<rparr>"

definition create_context_fails_single :: driver where
  "create_context_fails_single =
     failing_at 11 \<lparr>ret = EGL_BAD_ATTRIBUTE, outp = 0, chars = []\<rparr>"

definition destroy_surface_fails :: driver where
  "destroy_surface_fails = failing_at 3 \<lparr>ret = EGL_BAD_SURFACE, outp = 0, chars = []\<rparr>"

definition bind_framebuffer_fails :: driver where
  "bind_framebuffer_fails = failing_at 1 \<lparr>ret = GL_INVALID_OPERATION, outp = 0, chars = []\<rparr>"

text \<open>
  Further drivers: the check after \<^verbatim>\<open>eglDestroyContext\<close> in the teardown of session A
  (position 7 of a teardown started on an empty call sequence) or after \<^verbatim>\<open>eglTerminate\<close>
  in the coordinator (position 6) finds an error; the first \<^verbatim>\<open>eglChooseConfig\<close> of
  \<^verbatim>\<open>main\<close> succeeds but finds no configuration; the vertex stage does not compile and
  the driver then reports the program as not linked (position 15 is the
  \<^verbatim>\<open>GL_LINK_STATUS\<close> query of a program built at the start of a call sequence).
\<close>

definition destroy_context_fails_a :: driver where
  "destroy_context_fails_a = failing_at 7 \<lparr>ret = EGL_BAD_ATTRIBUTE, outp = 0, chars = []\<rparr>"

definition terminate_fails :: driver where
  "terminate_fails = failing_at 6 \<lparr>ret = EGL_BAD_DISPLAY, outp = 0, chars = []\<rparr>"

definition no_config_found :: driver where
  "no_config_found = failing_at 6 \<lparr>ret = 1, outp = 0, chars = []\<rparr>"

definition vertex_stage_rejected :: driver where
  "vertex_stage_rejected i name =
     (if i = 15 then \<lparr>ret = 0, outp = 0, chars = []\<rparr> else compile_fails i name)"

section \<open>Notions used to state and to prove the properties\<close>

text \<open>The calls that a program adds to the call sequence when started in \<open>w\<close>.\<close>

definition new_events :: "(world, 'a) state \<Rightarrow> world \<Rightarrow> event list" where
  "new_events m w = drop (length (calls w)) (calls (snd (run_state m w)))"

text \<open>
  What a check of \<^verbatim>\<open>eglGetError\<close> made at position \<open>i\<close> of the call sequence prints
  for the call named \<open>label\<close>: the error code with the label if the driver reports an
  error, and nothing otherwise.
\<close>

definition egl_report :: "driver \<Rightarrow> nat \<Rightarrow> string \<Rightarrow> line list" where
  "egl_report drv i label =
     (if ret (drv i ''eglGetError'') \<noteq> EGL_SUCCESS
      then [EGLErrorAt (ret (drv i ''eglGetError'')) label] else [])"

text \<open>
  An assumption on the driver, taken from the OpenGL ES specification: attaching the
  name 0 attaches no shader, and a program that lacks one of its two stages does not
  link. In terms of a run: every \<^verbatim>\<open>GL_LINK_STATUS\<close> query of a program for which an
  earlier \<^verbatim>\<open>glAttachShader\<close> of the run named shader 0 is answered with 0.
\<close>

definition missing_stage_not_linked :: "driver \<Rightarrow> world \<Rightarrow> bool" where
  "missing_stage_not_linked drv w =
     (\<forall>j < length (calls w). \<forall>k < j.
        fst (calls w ! j) = ''glGetProgramiv''
        \<and> snd (calls w ! j) = [hd (snd (calls w ! j)), GL_LINK_STATUS]
        \<and> calls w ! k = (''glAttachShader'', [hd (snd (calls w ! j)), 0])
        \<longrightarrow> outp (drv j ''glGetProgramiv'') = 0)"

text \<open>The state after \<open>n\<close> passes through the body of the loop of session A.\<close>

fun passes :: "driver \<Rightarrow> GLContext \<Rightarrow> session_a \<Rightarrow> nat \<Rightarrow> world \<Rightarrow> world" where
  "passes drv glCtx a 0 w = w"
| "passes drv glCtx a (Suc n) w =
     passes drv glCtx a n (snd (run_state (thread_a_iteration drv glCtx a) w))"

text \<open>A call of \<^verbatim>\<open>eglCreateContext\<close> asks for client version \<open>v\<close>.\<close>

definition requests_version :: "c_int \<Rightarrow> event \<Rightarrow> bool" where
  "requests_version v ev =
     (fst ev = ''eglCreateContext'' \<longrightarrow> snd ev = [EGL_CONTEXT_CLIENT_VERSION, v, EGL_NONE])"

text \<open>
  \<open>only_adds P m\<close>: whatever the starting state, \<open>m\<close> only appends calls that satisfy
  \<open>P\<close>. \<open>status_in S m\<close>: started with a status in \<open>S\<close>, \<open>m\<close> ends with a status in
  \<open>S\<close>.
\<close>

definition only_adds :: "(event \<Rightarrow> bool) \<Rightarrow> (world, 'a) state \<Rightarrow> bool" where
  "only_adds P m =
     (\<forall>w. \<exists>evs. calls (snd (run_state m w)) = calls w @ evs \<and> (\<forall>ev \<in> set evs. P ev))"

definition status_in :: "status set \<Rightarrow> (world, 'a) state \<Rightarrow> bool" where
  "status_in S m = (\<forall>w. status w \<in> S \<longrightarrow> status (snd (run_state m w)) \<in> S)"

section \<open>Properties of the pixel format helper\<close>

lemmas gl_enum_defs =
  GL_BYTE_def GL_UNSIGNED_BYTE_def GL_SHORT_def GL_UNSIGNED_SHORT_def GL_INT_def
  GL_UNSIGNED_INT_def GL_FLOAT_def GL_FIXED_def GL_UNSIGNED_SHORT_4_4_4_4_def
  GL_UNSIGNED_SHORT_5_5_5_1_def GL_UNSIGNED_SHORT_5_6_5_def GL_RGBA4_OES_def
  GL_RGB5_A1_OES_def GL_RGB565_OES_def GL_UNSIGNED_INT_24_8_OES_def
  GL_DEPTH_COMPONENT_def GL_ALPHA_def GL_RGB_def GL_RGBA_def GL_LUMINANCE_def
  GL_LUMINANCE_ALPHA_def GL_DEPTH_STENCIL_OES_def GL_BGRA_EXT_def

lemmas switch_label_defs =
  byte_types_def short_packed_types_def int_float_types_def one_channel_formats_def
  four_channel_formats_def

subsection \<open>Words that hold small values\<close>

text \<open>
  A 32-bit word below \<open>2 ^ 31\<close> reads the same signed and unsigned, and keeps its value
  through the conversions between \<^verbatim>\<open>int\<close> and \<^verbatim>\<open>size_t\<close>.
\<close>

lemma sint_uint32: "sint (x :: 32 word) = signed_take_bit 31 (uint x)"
proof -
  have "sint x = signed_take_bit (LENGTH(32) - Suc 0) (uint x)" by (rule sint_uint)
  also have "LENGTH(32) - Suc 0 = (31::nat)" by simp
  finally show ?thesis .
qed

lemma sint_small: "unat (x :: 32 word) < 2 ^ 31 \<Longrightarrow> sint x = int (unat x)"
proof -
  assume a: "unat x < 2 ^ 31"
  have "int (unat x) < int (2 ^ 31)" using a by (simp only: of_nat_less_iff)
  then have "uint x < 2 ^ 31" by (simp only: uint_nat of_nat_power of_nat_numeral)
  moreover have "- (2 ^ 31) \<le> uint x"
    by (rule order_trans [of _ 0]) simp_all
  ultimately have e: "signed_take_bit 31 (uint x) = uint x"
    by (intro signed_take_bit_int_eq_self)
  show ?thesis using e by (simp only: sint_uint32 uint_nat)
qed

lemma pos_unat:
  assumes "0 <s (w :: 32 word)"
  shows "0 < unat w \<and> unat w < 2 ^ 31 \<and> sint w = int (unat w)"
proof -
  have p: "0 < sint w" using assms by (simp only: word_sless_alt sint_0)
  have l: "unat w < 2 ^ 31"
  proof (rule ccontr)
    assume "\<not> unat w < 2 ^ 31"
    then have "2 ^ 31 \<le> unat w" by (simp only: not_less)
    then have "int (2 ^ 31) \<le> int (unat w)" by (simp only: of_nat_le_iff)
    then have g: "2 ^ 31 \<le> uint w" by (simp only: uint_nat of_nat_power of_nat_numeral)
    have "uint w < 2 ^ 32" using uint_lt2p [of w] by simp
    moreover have "signed_take_bit 31 (uint w) \<le> uint w - 2 ^ Suc 31"
      using g by (rule signed_take_bit_int_less_eq)
    moreover have "(2::int) ^ Suc 31 = 2 ^ 32" by simp
    ultimately have "signed_take_bit 31 (uint w) < 0" by (simp only:)
    then have "sint w < 0" by (simp only: sint_uint32)
    with p show False by simp
  qed
  have "0 < int (unat w)" using p l by (simp only: sint_small)
  then have "0 < unat w" by (simp only: of_nat_0_less_iff)
  with l show ?thesis by (simp only: sint_small simp_thms)
qed

lemma unat_ucast_up:
  "unat (ucast (x :: 32 word) :: 64 word) = unat x"
proof -
  have "unat x < 2 ^ 32" using unsigned_less [of x] by simp
  then have "unat x < 2 ^ 64" by (rule less_trans) simp
  then show ?thesis by (simp add: unsigned_ucast_eq take_bit_nat_eq_self)
qed

lemma scast_small:
  "unat (x :: 32 word) < 2 ^ 31 \<Longrightarrow> (scast x :: 64 word) = ucast x"
  by (simp only: scast_eq ucast_eq sint_small uint_nat)

lemma unat_scast_small:
  "unat (x :: 32 word) < 2 ^ 31 \<Longrightarrow> unat (scast x :: 64 word) = unat x"
  by (simp only: scast_small unat_ucast_up)

lemma unat_ucast_down_small:
  "unat (y :: 64 word) < 2 ^ 32 \<Longrightarrow> unat (ucast y :: 32 word) = unat y"
  by (simp add: unsigned_ucast_eq take_bit_nat_eq_self)

subsection \<open>The stride without overflow\<close>

lemma scast_alignment: "(scast alignment :: 64 word) = 4"
  by (simp add: alignment_def)

lemma aligned_linesize_unat:
  assumes A: "(unat p * unat w + 3) div 4 * 4 < 2 ^ 31"
  shows "unat (aligned_linesize p w) = (unat p * unat w + 3) div 4 * 4"
proof -
  define L where "L = unat p * unat w"
  have L31: "L < 2 ^ 31" using A unfolding L_def by simp
  have "unat p * unat w < 2 ^ LENGTH(32)" using L31 unfolding L_def by simp
  then have x: "unat (p * w) = L" unfolding L_def by (simp only: unat_mult_lem)
  define linesize :: "64 word" where "linesize = scast (p * w)"
  have ls: "unat linesize = L"
    unfolding linesize_def using x L31 by (simp only: unat_scast_small)
  define q :: "64 word" where "q = linesize div scast alignment"
  have q: "unat q = L div 4"
    unfolding q_def scast_alignment by (simp add: unat_div ls)
  have q32: "unat (ucast q :: 32 word) = L div 4"
    using q L31 by (simp add: unat_ucast_down_small)
  have "unat (ucast q :: 32 word) * unat alignment < 2 ^ LENGTH(32)"
    using q32 L31 by (simp add: alignment_def)
  then have m: "unat ((ucast q :: 32 word) * alignment) = L div 4 * 4"
    by (simp only: unat_mult_lem) (simp add: q32 alignment_def)
  define aligned :: "64 word" where "aligned = scast ((ucast q :: 32 word) * alignment)"
  have al: "unat aligned = L div 4 * 4"
    unfolding aligned_def using m L31 by (simp add: unat_scast_small)
  have lt: "aligned < linesize \<longleftrightarrow> L div 4 * 4 < L"
    by (simp only: word_less_nat_alt al ls)
  have "unat aligned + unat (4 :: 64 word) < 2 ^ LENGTH(64)"
    using al L31 by simp
  then have pl: "unat (aligned + 4) = L div 4 * 4 + 4"
    by (simp only: unat_add_lem) (simp add: al)
  have "aligned_linesize p w = (if aligned < linesize then aligned + 4 else aligned)"
    by (simp add: aligned_linesize_def Let_def linesize_def q_def aligned_def scast_alignment)
  then have "unat (aligned_linesize p w) = (if L div 4 * 4 < L then L div 4 * 4 + 4 else L div 4 * 4)"
    by (simp add: lt pl al)
  also have "\<dots> = (L + 3) div 4 * 4" by presburger
  finally show ?thesis unfolding L_def .
qed

lemma bits_cases:
  "fst (glUtilsPixelBitSize format type) \<in> {0, 8, 16, 24, 32}"
  by (simp add: glUtilsPixelBitSize_def type_switch_def format_switch_def split: if_splits)

subsection \<open>Four bytes per pixel, with wrap-around\<close>

text \<open>
  A multiple of four stays one under wrap-around, so the inline remainder is 0 and the
  divide, cast and multiply of \<^verbatim>\<open>pixelDataSize\<close> give the line size back.
\<close>

lemma four_dvd_power: "2 \<le> n \<Longrightarrow> (4 :: int) dvd 2 ^ n"
proof -
  assume "2 \<le> n"
  then have "(2 :: int) ^ 2 dvd 2 ^ n" by (rule le_imp_power_dvd)
  then show ?thesis by simp
qed

lemma c_rem_4_mult: "c_rem (4 * w) 4 = 0"
proof -
  define k where "k = sint (4 * w)"
  define m where "m = sint w"
  have "sint (4 * w) = signed_take_bit (LENGTH(32) - 1) (sint (4 :: 32 word) * sint w)"
    by (rule sint_word_ariths)
  also have "sint (4 :: 32 word) = 4" by simp
  also have "LENGTH(32) - 1 = (31 :: nat)" by simp
  finally have "k = signed_take_bit 31 (4 * m)" unfolding k_def m_def .
  also have "\<dots> = take_bit (Suc 31) (4 * m + 2 ^ 31) - 2 ^ 31"
    by (rule signed_take_bit_eq_take_bit_shift)
  also have "\<dots> = (4 * m + 2 ^ 31) mod 2 ^ Suc 31 - 2 ^ 31"
    by (simp only: take_bit_eq_mod)
  finally have k: "k = (4 * m + 2 ^ 31) mod 2 ^ Suc 31 - 2 ^ 31" .
  have d31: "(4 :: int) dvd 2 ^ 31" by (rule four_dvd_power) simp
  have "4 dvd 4 * m + (2 :: int) ^ 31"
    using d31 by (rule dvd_add [OF dvd_triv_left])
  moreover have "(4 :: int) dvd 2 ^ Suc 31" by (rule four_dvd_power) simp
  ultimately have "4 dvd (4 * m + 2 ^ 31) mod 2 ^ Suc 31" by (rule dvd_mod)
  then have "4 dvd k" unfolding k
    using d31 by (rule dvd_diff)
  then have "k smod 4 = 0"
    by (auto simp: signed_modulo_int_def)
  then show ?thesis unfolding k_def by (simp only: c_rem_def sint_numeral) simp
qed

lemma realign_mult4:
  "(ucast ((scast (4 * w :: 32 word) :: 64 word) div 4) :: 32 word) * 4 = 4 * w"
proof -
  have a: "(4 :: 32 word) * w = push_bit 2 w" by (simp add: push_bit_eq_mult)
  have b: "(y :: 64 word) div 4 = drop_bit 2 y" for y by (simp add: drop_bit_eq_div)
  have c: "(z :: 32 word) * 4 = push_bit 2 z" for z by (simp add: push_bit_eq_mult)
  show ?thesis
    unfolding a b c
    by (rule bit_word_eqI) (auto simp: bit_simps)
qed

lemma ucast_mult_scast:
  "(ucast ((scast (x :: 32 word) :: 64 word) * scast (h :: 32 word)) :: 32 word) = x * h"
proof -
  define P where "P = sint x * sint h"
  have "(scast x :: 64 word) * scast h = word_of_int (sint x) * word_of_int (sint h)"
    by (simp only: scast_eq)
  also have "\<dots> = word_of_int P" unfolding P_def by (simp only: of_int_mult)
  finally have "(ucast ((scast x :: 64 word) * scast h) :: 32 word) = ucast (word_of_int P :: 64 word)"
    by (simp only:)
  also have "\<dots> = word_of_int P"
    by (rule ucast_down_wi) (simp add: is_down)
  also have "\<dots> = word_of_int (sint x) * word_of_int (sint h)"
    unfolding P_def by (simp only: of_int_mult)
  also have "\<dots> = x * h" by (simp only: of_int_sint scast_id)
  finally show ?thesis .
qed

lemma aligned_linesize_4: "aligned_linesize 4 w = scast (4 * w)"
  by (simp add: aligned_linesize_def Let_def scast_alignment) (simp add: alignment_def realign_mult4)

lemma inline_stride_eq: "inline_stride w = 4 * w"
  by (simp add: inline_stride_def nr_channels_def c_rem_4_mult Let_def)

subsection \<open>The size of an image\<close>

lemma pixelsize_cases:
  "unat (signed_drop_bit 3 (fst (glUtilsPixelBitSize format type))) \<le> 4
   \<and> int (unat (signed_drop_bit 3 (fst (glUtilsPixelBitSize format type))))
       = sint (fst (glUtilsPixelBitSize format type)) div 8"
proof -
  have "fst (glUtilsPixelBitSize format type) \<in> {0, 8, 16, 24, 32}" by (rule bits_cases)
  then consider "fst (glUtilsPixelBitSize format type) = 0"
    | "fst (glUtilsPixelBitSize format type) = 8"
    | "fst (glUtilsPixelBitSize format type) = 16"
    | "fst (glUtilsPixelBitSize format type) = 24"
    | "fst (glUtilsPixelBitSize format type) = 32" by auto
  then show ?thesis by cases simp_all
qed

lemma pixelDataSize_unat:
  assumes w: "0 <s width" and h: "0 <s height"
    and A: "(unat (signed_drop_bit 3 (fst (glUtilsPixelBitSize format type))) * unat width + 3) div 4 * 4 * unat height < 2 ^ 31"
  shows "sint (fst (pixelDataSize width height format type))
           = int ((unat (signed_drop_bit 3 (fst (glUtilsPixelBitSize format type))) * unat width + 3) div 4 * 4 * unat height)"
proof -
  define p where "p = signed_drop_bit 3 (fst (glUtilsPixelBitSize format type))"
  define S where "S = (unat p * unat width + 3) div 4 * 4"
  have H: "0 < unat height" "unat height < 2 ^ 31" using pos_unat [OF h] by simp_all
  have SH: "S * unat height < 2 ^ 31" using A unfolding S_def p_def .
  have "S * 1 \<le> S * unat height" using H(1) by (intro mult_le_mono2) simp
  then have "S \<le> S * unat height" by (simp only: mult_1_right)
  then have S31: "S < 2 ^ 31" using SH by (rule le_less_trans)
  have al: "unat (aligned_linesize p width) = S"
    unfolding S_def using S31 [unfolded S_def] by (rule aligned_linesize_unat)
  have sh: "unat (scast height :: 64 word) = unat height"
    using H(2) by (rule unat_scast_small)
  have "unat (aligned_linesize p width) * unat (scast height :: 64 word) < 2 ^ LENGTH(64)"
    unfolding al sh using SH by simp
  then have "unat (aligned_linesize p width * scast height)
      = unat (aligned_linesize p width) * unat (scast height :: 64 word)"
    by (simp only: unat_mult_lem)
  then have pr: "unat (aligned_linesize p width * scast height) = S * unat height"
    by (simp only: al sh)
  have r32: "unat (ucast (aligned_linesize p width * scast height) :: 32 word) = S * unat height"
    using SH by (simp add: unat_ucast_down_small pr)
  have nw: "\<not> width \<le>s 0" "\<not> height \<le>s 0"
    using w h by (simp_all add: word_sle_eq word_sless_alt)
  have "fst (pixelDataSize width height format type)
          = ucast (aligned_linesize p width * scast height)"
    using nw by (simp add: pixelDataSize_def p_def Let_def split: prod.splits)
  then have "sint (fst (pixelDataSize width height format type)) = int (S * unat height)"
    using r32 SH by (simp only: sint_small)
  then show ?thesis unfolding S_def p_def .
qed

lemma row_stride_unat:
  assumes "(unat (signed_drop_bit 3 (fst (glUtilsPixelBitSize format type))) * unat width + 3)
             div 4 * 4 < 2 ^ 31"
  shows "unat (row_stride width format type)
           = (unat (signed_drop_bit 3 (fst (glUtilsPixelBitSize format type))) * unat width + 3)
               div 4 * 4"
  unfolding row_stride_def using assms by (rule aligned_linesize_unat)

text \<open>
  Claim C1, as the code has it. For positive width and height, with
  \<open>bytes = bits_per_pixel div 8\<close>, \<open>line = bytes * width\<close> and \<open>aligned_line\<close> the
  smallest multiple of 4 that is at least \<open>line\<close>: the stride that \<^verbatim>\<open>pixelDataSize\<close>
  computes is \<open>aligned_line\<close> whenever that fits an \<^verbatim>\<open>int\<close>, and the function returns
  \<open>aligned_line * height\<close> whenever this product fits the 32-bit \<^verbatim>\<open>GLsizei\<close> it is
  returned in. A zero width or height gives 0.
\<close>

theorem pixelDataSize_row_aligned:
  "(0 <s width \<and> 0 <s height \<longrightarrow>
      (let bytes = sint (fst (glUtilsPixelBitSize format type)) div 8;
           line = bytes * sint width;
           aligned_line = (line + 3) div 4 * 4
       in 4 dvd aligned_line \<and> line \<le> aligned_line
          \<and> (\<forall>m. 4 dvd m \<and> line \<le> m \<longrightarrow> aligned_line \<le> m)
          \<and> (aligned_line < 2 ^ 31 \<longrightarrow>
                uint (row_stride width format type) = aligned_line)
          \<and> (aligned_line * sint height < 2 ^ 31 \<longrightarrow>
                sint (fst (pixelDataSize width height format type))
                  = aligned_line * sint height)))
   \<and> (width = 0 \<or> height = 0 \<longrightarrow> pixelDataSize width height format type = (0, []))"
proof (intro conjI impI)
  assume "width = 0 \<or> height = 0"
  then show "pixelDataSize width height format type = (0, [])"
    by (auto simp: pixelDataSize_def)
next
  assume a: "0 <s width \<and> 0 <s height"
  define P where "P = unat (signed_drop_bit 3 (fst (glUtilsPixelBitSize format type)))"
  define W where "W = unat width"
  define H where "H = unat height"
  define S where "S = (P * W + 3) div 4 * 4"
  have w: "0 <s width" and h: "0 <s height" using a by simp_all
  have b: "sint (fst (glUtilsPixelBitSize format type)) div 8 = int P"
    unfolding P_def using pixelsize_cases [of format type] by simp
  have sw: "sint width = int W" unfolding W_def using pos_unat [OF w] by simp
  have sh: "sint height = int H" unfolding H_def using pos_unat [OF h] by simp
  have e: "(int P * int W + 3) div 4 * 4 = int S"
    unfolding S_def by (simp add: zdiv_int)
  have m: "4 dvd int S \<and> int P * int W \<le> int S
        \<and> (\<forall>m. 4 dvd m \<and> int P * int W \<le> m \<longrightarrow> int S \<le> m)"
    unfolding e [symmetric] by presburger
  have st: "uint (row_stride width format type) = int S" if "int S < 2 ^ 31"
  proof -
    from that have "int S < int (2 ^ 31)" by (simp only: of_nat_power of_nat_numeral)
    then have "S < 2 ^ 31" by (simp only: of_nat_less_iff)
    from row_stride_unat [OF this [unfolded S_def P_def W_def]]
    show ?thesis unfolding S_def P_def W_def by (simp only: uint_nat)
  qed
  have res: "sint (fst (pixelDataSize width height format type)) = int S * int H"
    if "int S * int H < 2 ^ 31"
  proof -
    from that have "int (S * H) < int (2 ^ 31)"
      by (simp only: of_nat_mult of_nat_power of_nat_numeral)
    then have "S * H < 2 ^ 31" by (simp only: of_nat_less_iff)
    from pixelDataSize_unat [OF w h this [unfolded S_def P_def W_def H_def]]
    show ?thesis unfolding S_def P_def W_def H_def by (simp only: of_nat_mult)
  qed
  show "let bytes = sint (fst (glUtilsPixelBitSize format type)) div 8;
           line = bytes * sint width;
           aligned_line = (line + 3) div 4 * 4
       in 4 dvd aligned_line \<and> line \<le> aligned_line
          \<and> (\<forall>m. 4 dvd m \<and> line \<le> m \<longrightarrow> aligned_line \<le> m)
          \<and> (aligned_line < 2 ^ 31 \<longrightarrow>
                uint (row_stride width format type) = aligned_line)
          \<and> (aligned_line * sint height < 2 ^ 31 \<longrightarrow>
                sint (fst (pixelDataSize width height format type))
                  = aligned_line * sint height)"
    unfolding Let_def b sw sh e using m st res by blast
qed

theorem pixelDataSize_row_aligned_witness:
  "(0 :: GLsizei) <s 5 \<and> (0 :: GLsizei) <s 3
   \<and> uint (row_stride 5 GL_RGB GL_UNSIGNED_BYTE) = 16
   \<and> sint (fst (pixelDataSize 5 3 GL_RGB GL_UNSIGNED_BYTE)) = 48
   \<and> pixelDataSize 0 3 GL_RGB GL_UNSIGNED_BYTE = (0, [])"
proof -
  have b: "sint (fst (glUtilsPixelBitSize GL_RGB GL_UNSIGNED_BYTE)) div 8 = 3"
    by (simp add: glUtilsPixelBitSize_def type_switch_def format_switch_def gl_enum_defs
        switch_label_defs)
  have p: "(0 :: GLsizei) <s 5 \<and> (0 :: GLsizei) <s 3" by (simp add: word_sless_alt)
  have v: "sint (5 :: GLsizei) = 5" "sint (3 :: GLsizei) = 3" by simp_all
  from pixelDataSize_row_aligned [of 5 3 GL_RGB GL_UNSIGNED_BYTE] p
  have "uint (row_stride 5 GL_RGB GL_UNSIGNED_BYTE) = 16
      \<and> sint (fst (pixelDataSize 5 3 GL_RGB GL_UNSIGNED_BYTE)) = 48"
    unfolding Let_def b v by simp
  moreover from pixelDataSize_row_aligned [of 0 3 GL_RGB GL_UNSIGNED_BYTE]
  have "pixelDataSize 0 3 GL_RGB GL_UNSIGNED_BYTE = (0, [])" by blast
  ultimately show ?thesis using p by simp
qed

text \<open>
  Without the bound the returned value is not \<open>stride * height\<close>: a 32768 by 32768
  RGBA image has stride 131072 and needs \<open>2 ^ 32\<close> bytes, and the function returns 0.
\<close>

theorem pixelDataSize_overflow_counterexample:
  "(0 :: GLsizei) <s 32768
   \<and> sint (fst (glUtilsPixelBitSize GL_RGBA GL_UNSIGNED_BYTE)) div 8 = 4
   \<and> uint (row_stride 32768 GL_RGBA GL_UNSIGNED_BYTE) = 131072
   \<and> fst (pixelDataSize 32768 32768 GL_RGBA GL_UNSIGNED_BYTE) = 0
   \<and> (131072 :: int) * sint (32768 :: GLsizei) = 4294967296"
  by (simp add: pixelDataSize_def row_stride_def glUtilsPixelBitSize_def type_switch_def
      format_switch_def gl_enum_defs switch_label_defs aligned_linesize_def alignment_def
      word_sle_eq word_sless_alt)

text \<open>
  Claim C2. For every positive width and height the inline sizing of the render paths
  gives the stride and the buffer size that \<^verbatim>\<open>pixelDataSize\<close> computes for
  \<^verbatim>\<open>GL_RGBA\<close> and \<^verbatim>\<open>GL_UNSIGNED_BYTE\<close>; for 512 by 512 both give stride 2048 and
  1048576 bytes.
\<close>

theorem inline_bufferSize_eq_pixelDataSize:
  "(0 <s width \<and> 0 <s height \<longrightarrow>
      scast (inline_stride width) = row_stride width GL_RGBA GL_UNSIGNED_BYTE
      \<and> inline_bufferSize width height
          = fst (pixelDataSize width height GL_RGBA GL_UNSIGNED_BYTE))
   \<and> inline_stride 512 = 2048 \<and> row_stride 512 GL_RGBA GL_UNSIGNED_BYTE = 2048
   \<and> inline_bufferSize 512 512 = 1048576
   \<and> fst (pixelDataSize 512 512 GL_RGBA GL_UNSIGNED_BYTE) = 1048576"
proof -
  have b: "fst (glUtilsPixelBitSize GL_RGBA GL_UNSIGNED_BYTE) = 32"
    by (simp add: glUtilsPixelBitSize_def type_switch_def format_switch_def gl_enum_defs
        switch_label_defs)
  have p: "signed_drop_bit 3 (32 :: c_int) = 4" by simp
  have rs: "row_stride w GL_RGBA GL_UNSIGNED_BYTE = scast (4 * w)" for w
    by (simp only: row_stride_def b p aligned_linesize_4)
  have g: "0 <s width \<and> 0 <s height \<longrightarrow>
      scast (inline_stride width) = row_stride width GL_RGBA GL_UNSIGNED_BYTE
      \<and> inline_bufferSize width height
          = fst (pixelDataSize width height GL_RGBA GL_UNSIGNED_BYTE)" for width height
  proof (intro impI conjI)
    show "scast (inline_stride width) = row_stride width GL_RGBA GL_UNSIGNED_BYTE"
      by (simp only: rs inline_stride_eq)
    assume a: "0 <s width \<and> 0 <s height"
    then have nw: "\<not> width \<le>s 0" "\<not> height \<le>s 0"
      by (simp_all add: word_sle_eq word_sless_alt)
    have "fst (pixelDataSize width height GL_RGBA GL_UNSIGNED_BYTE)
            = ucast (row_stride width GL_RGBA GL_UNSIGNED_BYTE * scast height)"
      using nw by (simp add: pixelDataSize_def row_stride_def Let_def split: prod.splits)
    also have "\<dots> = 4 * width * height" by (simp only: rs ucast_mult_scast)
    finally show "inline_bufferSize width height
          = fst (pixelDataSize width height GL_RGBA GL_UNSIGNED_BYTE)"
      by (simp only: inline_bufferSize_def inline_stride_eq)
  qed
  have i: "inline_stride 512 = 2048" by (simp only: inline_stride_eq) simp
  have r: "row_stride 512 GL_RGBA GL_UNSIGNED_BYTE = 2048" by (simp only: rs) simp
  have ib: "inline_bufferSize 512 512 = 1048576"
    by (simp only: inline_bufferSize_def inline_stride_eq) simp
  have "(0 :: GLsizei) <s 512" by (simp add: word_sless_alt)
  with g [of 512 512] ib have "fst (pixelDataSize 512 512 GL_RGBA GL_UNSIGNED_BYTE) = 1048576"
    by simp
  with g i r ib show ?thesis by (simp only: simp_thms)
qed

theorem inline_bufferSize_eq_pixelDataSize_witness:
  "(0 :: GLsizei) <s 5 \<and> (0 :: GLsizei) <s 3
   \<and> scast (inline_stride 5) = row_stride 5 GL_RGBA GL_UNSIGNED_BYTE
   \<and> inline_bufferSize 5 3 = fst (pixelDataSize 5 3 GL_RGBA GL_UNSIGNED_BYTE)"
proof -
  have h: "(0 :: GLsizei) <s 5 \<and> (0 :: GLsizei) <s 3" by (simp add: word_sless_alt)
  with inline_bufferSize_eq_pixelDataSize [of 5 3] show ?thesis by blast
qed

text \<open>
  Claim C7. When the type is in none of the three groups of the first switch, or it is a
  byte type (which fixes only the component size) and the format is in none of the
  channel layouts of the second switch, \<^verbatim>\<open>glUtilsPixelBitSize\<close> returns 0 and its only
  effect is to print its diagnostics; its one caller \<^verbatim>\<open>pixelDataSize\<close> then prints a
  diagnostic of its own and returns the size 0.
\<close>

theorem glUtilsPixelBitSize_unknown:
  "type \<notin> set byte_types \<union> set short_packed_types \<union> set int_float_types
     \<or> (type \<in> set byte_types
         \<and> format \<notin> set one_channel_formats \<union> {GL_LUMINANCE_ALPHA, GL_RGB}
                        \<union> set four_channel_formats)
   \<Longrightarrow> fst (glUtilsPixelBitSize format type) = 0
       \<and> snd (glUtilsPixelBitSize format type) \<noteq> []
       \<and> set (snd (glUtilsPixelBitSize format type)) \<subseteq> {UnknownPixelType, UnknownPixelFormat}
       \<and> (0 <s width \<and> 0 <s height \<longrightarrow>
             pixelDataSize width height format type
               = (0, snd (glUtilsPixelBitSize format type)
                     @ [UnknownPixelSize width height format type]))"
proof -
  assume a: "type \<notin> set byte_types \<union> set short_packed_types \<union> set int_float_types
     \<or> (type \<in> set byte_types
         \<and> format \<notin> set one_channel_formats \<union> {GL_LUMINANCE_ALPHA, GL_RGB}
                        \<union> set four_channel_formats)"
  have z: "fst (glUtilsPixelBitSize format type) = 0"
    using a by (auto simp: glUtilsPixelBitSize_def type_switch_def format_switch_def)
  have d: "snd (glUtilsPixelBitSize format type) \<noteq> []
       \<and> set (snd (glUtilsPixelBitSize format type)) \<subseteq> {UnknownPixelType, UnknownPixelFormat}"
    using a by (auto simp: glUtilsPixelBitSize_def type_switch_def format_switch_def)
  have al: "aligned_linesize 0 width = 0"
    by (simp add: aligned_linesize_def)
  have "0 <s width \<and> 0 <s height \<longrightarrow>
             pixelDataSize width height format type
               = (0, snd (glUtilsPixelBitSize format type)
                     @ [UnknownPixelSize width height format type])"
  proof
    assume "0 <s width \<and> 0 <s height"
    then have nw: "\<not> width \<le>s 0" "\<not> height \<le>s 0"
      by (simp_all add: word_sle_eq word_sless_alt)
    obtain bits ls where g: "glUtilsPixelBitSize format type = (bits, ls)"
      by (cases "glUtilsPixelBitSize format type")
    with z have "bits = 0" by simp
    with g nw show "pixelDataSize width height format type
               = (0, snd (glUtilsPixelBitSize format type)
                     @ [UnknownPixelSize width height format type])"
      by (simp add: pixelDataSize_def al)
  qed
  with z d show ?thesis by (simp only: simp_thms)
qed

theorem glUtilsPixelBitSize_unknown_witness:
  "glUtilsPixelBitSize GL_RGBA 7 = (0, [UnknownPixelType])
   \<and> glUtilsPixelBitSize 7 GL_UNSIGNED_BYTE = (0, [UnknownPixelFormat])
   \<and> pixelDataSize 5 3 GL_RGBA 7 = (0, [UnknownPixelType, UnknownPixelSize 5 3 GL_RGBA 7])"
proof -
  have t: "(7 :: GLenum) \<notin> set byte_types \<union> set short_packed_types \<union> set int_float_types"
    by (simp add: switch_label_defs gl_enum_defs)
  have f: "GL_UNSIGNED_BYTE \<in> set byte_types
         \<and> (7 :: GLenum) \<notin> set one_channel_formats \<union> {GL_LUMINANCE_ALPHA, GL_RGB}
                        \<union> set four_channel_formats"
    by (simp add: switch_label_defs gl_enum_defs)
  have p: "(0 :: GLsizei) <s 5 \<and> (0 :: GLsizei) <s 3" by (simp add: word_sless_alt)
  have e1: "snd (glUtilsPixelBitSize GL_RGBA 7) = [UnknownPixelType]"
    by (simp add: glUtilsPixelBitSize_def type_switch_def format_switch_def switch_label_defs
        gl_enum_defs)
  have e2: "snd (glUtilsPixelBitSize 7 GL_UNSIGNED_BYTE) = [UnknownPixelFormat]"
    by (simp add: glUtilsPixelBitSize_def type_switch_def format_switch_def switch_label_defs
        gl_enum_defs)
  from glUtilsPixelBitSize_unknown [of 7 GL_RGBA 5 3] t p e1
  have "fst (glUtilsPixelBitSize GL_RGBA 7) = 0
      \<and> pixelDataSize 5 3 GL_RGBA 7 = (0, [UnknownPixelType, UnknownPixelSize 5 3 GL_RGBA 7])"
    by simp
  moreover from glUtilsPixelBitSize_unknown [of GL_UNSIGNED_BYTE 7 5 3] f
  have "fst (glUtilsPixelBitSize 7 GL_UNSIGNED_BYTE) = 0" by blast
  ultimately show ?thesis using e1 e2 by (simp add: prod_eq_iff)
qed

text \<open>
  Claim C10. A width or height that is zero or negative takes the early return of
  \<^verbatim>\<open>pixelDataSize\<close>: the result is 0 whatever the format and type, and nothing is
  printed, so \<^verbatim>\<open>glUtilsPixelBitSize\<close> is not reached.
\<close>

theorem pixelDataSize_nonpositive:
  "width \<le>s 0 \<or> height \<le>s 0 \<Longrightarrow> pixelDataSize width height format type = (0, [])"
  by (simp add: pixelDataSize_def)

theorem pixelDataSize_nonpositive_witness:
  "(- 5 :: GLsizei) \<le>s 0 \<and> pixelDataSize (- 5) 3 GL_RGBA 7 = (0, [])
   \<and> pixelDataSize 5 (- 1) 7 GL_UNSIGNED_BYTE = (0, [])"
proof -
  have a: "(- 5 :: GLsizei) \<le>s 0" by (simp add: word_sle_eq)
  have b: "(- 1 :: GLsizei) \<le>s 0" by (simp add: word_sle_eq)
  from a pixelDataSize_nonpositive [of "- 5" 3 GL_RGBA 7]
    b pixelDataSize_nonpositive [of 5 "- 1" 7 GL_UNSIGNED_BYTE]
  show ?thesis by blast
qed

section \<open>Running the programs step by step\<close>

lemma run_call_running:
  "status w = Running \<Longrightarrow> run_state (call drv name args) w =
     (drv (length (calls w)) name, w\<lparr>calls := calls w @ [(name, args)]\<rparr>)"
  by (simp add: call_def)

lemma run_call_stopped:
  "status w \<noteq> Running \<Longrightarrow> run_state (call drv name args) w = (drv (length (calls w)) name, w)"
  by (simp add: call_def)

lemma run_printf_running:
  "status w = Running \<Longrightarrow> run_state (printf l) w = ((), w\<lparr>out := out w @ [l]\<rparr>)"
  by (simp add: printf_def)

lemma run_printf_stopped:
  "status w \<noteq> Running \<Longrightarrow> run_state (printf l) w = ((), w)"
  by (simp add: printf_def)

lemma run_exit_running:
  "status w = Running \<Longrightarrow> run_state (exit c) w = ((), w\<lparr>status := Exited c\<rparr>)"
  by (simp add: exit_def)

lemma run_exit_stopped:
  "status w \<noteq> Running \<Longrightarrow> run_state (exit c) w = ((), w)"
  by (simp add: exit_def)

lemma run_vector_ctor_running:
  "status w = Running \<Longrightarrow> run_state (vector_ctor n) w =
     ((), if n <s 0 then w\<lparr>status := Terminated\<rparr> else w)"
  by (simp add: vector_ctor_def)

lemma run_vector_ctor_stopped:
  "status w \<noteq> Running \<Longrightarrow> run_state (vector_ctor n) w = ((), w)"
  by (simp add: vector_ctor_def)

lemmas run_prims = run_call_running run_call_stopped run_printf_running run_printf_stopped
  run_exit_running run_exit_stopped run_vector_ctor_running run_vector_ctor_stopped

lemmas egl_enum_defs = EGL_SUCCESS_def EGL_BAD_ATTRIBUTE_def EGL_BAD_DISPLAY_def
  EGL_BAD_SURFACE_def EGL_NONE_def
  EGL_HEIGHT_def EGL_WIDTH_def EGL_CONTEXT_CLIENT_VERSION_def GL_NO_ERROR_def
  GL_INVALID_OPERATION_def GL_FRAGMENT_SHADER_def GL_VERTEX_SHADER_def GL_COMPILE_STATUS_def
  GL_LINK_STATUS_def GL_INFO_LOG_LENGTH_def

lemmas test_driver_defs = quiet_driver_def failing_at_def compile_fails_def process_start_def
  glCtx512_def a_session1_def

lemma run_assertEGLError_mt:
  "status w = Running \<Longrightarrow> run_state (assertEGLError_mt drv msg) w =
     ((), if ret (drv (length (calls w)) ''eglGetError'') \<noteq> EGL_SUCCESS
          then w\<lparr>calls := calls w @ [(''eglGetError'', [])],
                 out := out w @ [EGLErrorAt (ret (drv (length (calls w)) ''eglGetError'')) msg],
                 status := Exited (- 1)\<rparr>
          else w\<lparr>calls := calls w @ [(''eglGetError'', [])]\<rparr>)"
  by (simp add: assertEGLError_mt_def run_prims)

lemma run_assertEGLError_mt_stopped:
  "status w \<noteq> Running \<Longrightarrow> run_state (assertEGLError_mt drv msg) w = ((), w)"
  by (simp add: assertEGLError_mt_def run_prims)

lemma run_assertEGLError_single:
  "status w = Running \<Longrightarrow> run_state (assertEGLError_single drv msg) w =
     ((), w\<lparr>calls := calls w @ [(''eglGetError'', [])],
            out := out w @ egl_report drv (length (calls w)) msg\<rparr>)"
  by (simp add: assertEGLError_single_def egl_report_def run_prims)

lemma run_assertEGLError_single_stopped:
  "status w \<noteq> Running \<Longrightarrow> run_state (assertEGLError_single drv msg) w = ((), w)"
  by (simp add: assertEGLError_single_def run_prims)

lemmas run_asserts = run_assertEGLError_mt run_assertEGLError_mt_stopped
  run_assertEGLError_single run_assertEGLError_single_stopped

lemmas setup_simps = run_asserts run_prims process_start_def Let_def eval_nat_numeral

subsection \<open>How the status moves\<close>

lemma status_in_call: "status_in S (call drv name args)"
  by (simp add: status_in_def call_def)

lemma status_in_printf: "status_in S (printf l)"
  by (simp add: status_in_def printf_def)

lemma status_in_exit: "Exited c \<in> S \<Longrightarrow> status_in S (exit c)"
  by (simp add: status_in_def exit_def)

lemma status_in_vector_ctor: "Terminated \<in> S \<Longrightarrow> status_in S (vector_ctor n)"
  by (simp add: status_in_def vector_ctor_def)

lemma status_in_return: "status_in S (State_Monad.return x)"
  by (simp add: status_in_def)

lemma status_in_bind:
  assumes "status_in S m" and "\<And>x. status_in S (f x)"
  shows "status_in S (State_Monad.bind m f)"
  using assms unfolding status_in_def by (simp split: prod.splits) (metis snd_conv)

lemma status_in_if:
  "status_in S a \<Longrightarrow> status_in S b \<Longrightarrow> status_in S (if c then a else b)"
  by simp

lemmas status_in_intros =
  status_in_bind status_in_if status_in_return status_in_printf status_in_call status_in_exit
  status_in_vector_ctor

section \<open>Shader stage compilation\<close>

lemma LoadShader_keeps_running:
  "status w = Running \<Longrightarrow> status (snd (run_state (LoadShader drv type shaderSrc) w)) = Running"
proof -
  have "status_in {Running} (LoadShader drv type shaderSrc)"
    unfolding LoadShader_def Let_def by (intro status_in_intros)
  then show "status w = Running \<Longrightarrow> ?thesis" by (simp add: status_in_def)
qed

lemma missing_stage_link_status:
  assumes m: "missing_stage_not_linked drv w'"
    and c: "calls w' = evs @ [(''glCreateProgram'', []), (''glAttachShader'', [p, v]),
              (''glAttachShader'', [p, f]), (''glLinkProgram'', [p]),
              (''glGetProgramiv'', [p, GL_LINK_STATUS])]"
    and z: "v = 0 \<or> f = 0"
  shows "outp (drv (length evs + 4) ''glGetProgramiv'') = 0"
proof -
  have j: "calls w' ! (length evs + 4) = (''glGetProgramiv'', [p, GL_LINK_STATUS])"
    and k1: "calls w' ! (length evs + 1) = (''glAttachShader'', [p, v])"
    and k2: "calls w' ! (length evs + 2) = (''glAttachShader'', [p, f])"
    and l: "length evs + 4 < length (calls w')"
    by (simp_all add: c nth_append)
  from z show ?thesis
  proof
    assume "v = 0"
    with m [unfolded missing_stage_not_linked_def, rule_format, of "length evs + 4" "length evs + 1"]
      j k1 l show ?thesis by simp
  next
    assume "f = 0"
    with m [unfolded missing_stage_not_linked_def, rule_format, of "length evs + 4" "length evs + 2"]
      j k2 l show ?thesis by simp
  qed
qed

lemma CompileProgram_missing_stage:
  assumes r: "status w = Running"
    and z: "fst (run_state (LoadShader drv GL_VERTEX_SHADER vsSource) w) = 0
        \<or> fst (run_state (LoadShader drv GL_FRAGMENT_SHADER fsSource)
                  (snd (run_state (LoadShader drv GL_VERTEX_SHADER vsSource) w))) = 0"
    and m: "missing_stage_not_linked drv (snd (run_state (CompileProgram drv vsSource fsSource) w))"
  shows "fst (run_state (CompileProgram drv vsSource fsSource) w) = 0"
proof -
  obtain v w1 where v: "run_state (LoadShader drv GL_VERTEX_SHADER vsSource) w = (v, w1)"
    by (cases "run_state (LoadShader drv GL_VERTEX_SHADER vsSource) w")
  obtain f w2 where f: "run_state (LoadShader drv GL_FRAGMENT_SHADER fsSource) w1 = (f, w2)"
    by (cases "run_state (LoadShader drv GL_FRAGMENT_SHADER fsSource) w1")
  from LoadShader_keeps_running [OF r, of drv GL_VERTEX_SHADER vsSource] v
  have s1: "status w1 = Running" by simp
  from LoadShader_keeps_running [OF s1, of drv GL_FRAGMENT_SHADER fsSource] f
  have s2: "status w2 = Running" by simp
  from z v f have z': "v = 0 \<or> f = 0" by simp
  show ?thesis
  proof (cases "ret (drv (length (calls w2)) ''glCreateProgram'') = 0")
    case True
    then show ?thesis by (simp add: CompileProgram_def v f s2 run_prims Let_def)
  next
    case p: False
    show ?thesis
    proof (cases "outp (drv (length (calls w2) + 4) ''glGetProgramiv'') = 0")
      case True
      with p show ?thesis
        by (simp add: CompileProgram_def v f s2 run_prims Let_def eval_nat_numeral)
    next
      case False
      with p have "calls (snd (run_state (CompileProgram drv vsSource fsSource) w))
          = calls w2 @ [(''glCreateProgram'', []),
              (''glAttachShader'', [ret (drv (length (calls w2)) ''glCreateProgram''), v]),
              (''glAttachShader'', [ret (drv (length (calls w2)) ''glCreateProgram''), f]),
              (''glLinkProgram'', [ret (drv (length (calls w2)) ''glCreateProgram'')]),
              (''glGetProgramiv'',
                 [ret (drv (length (calls w2)) ''glCreateProgram''), GL_LINK_STATUS])]"
        by (simp add: CompileProgram_def v f s2 run_prims Let_def eval_nat_numeral)
      from missing_stage_link_status [OF m this z'] False show ?thesis by simp
    qed
  qed
qed

lemma init_triangle_missing_stage:
  assumes r: "status w = Running"
    and z: "fst (run_state (LoadShader drv GL_VERTEX_SHADER vShaderStr) w) = 0
        \<or> fst (run_state (LoadShader drv GL_FRAGMENT_SHADER fShaderStr)
                  (snd (run_state (LoadShader drv GL_VERTEX_SHADER vShaderStr) w))) = 0"
    and m: "missing_stage_not_linked drv (snd (run_state (init_triangle drv) w))"
  shows "fst (run_state (init_triangle drv) w) = 0"
proof -
  obtain v w1 where v: "run_state (LoadShader drv GL_VERTEX_SHADER vShaderStr) w = (v, w1)"
    by (cases "run_state (LoadShader drv GL_VERTEX_SHADER vShaderStr) w")
  obtain f w2 where f: "run_state (LoadShader drv GL_FRAGMENT_SHADER fShaderStr) w1 = (f, w2)"
    by (cases "run_state (LoadShader drv GL_FRAGMENT_SHADER fShaderStr) w1")
  from LoadShader_keeps_running [OF r, of drv GL_VERTEX_SHADER vShaderStr] v
  have s1: "status w1 = Running" by simp
  from LoadShader_keeps_running [OF s1, of drv GL_FRAGMENT_SHADER fShaderStr] f
  have s2: "status w2 = Running" by simp
  from z v f have z': "v = 0 \<or> f = 0" by simp
  show ?thesis
  proof (cases "ret (drv (length (calls w2)) ''glCreateProgram'') = 0")
    case True
    then show ?thesis by (simp add: init_triangle_def v f s2 run_prims Let_def)
  next
    case p: False
    show ?thesis
    proof (cases "outp (drv (length (calls w2) + 4) ''glGetProgramiv'') = 0")
      case True
      with p show ?thesis
        by (simp add: init_triangle_def v f s2 run_prims Let_def eval_nat_numeral)
    next
      case False
      with p have "calls (snd (run_state (init_triangle drv) w))
          = calls w2 @ [(''glCreateProgram'', []),
              (''glAttachShader'', [ret (drv (length (calls w2)) ''glCreateProgram''), v]),
              (''glAttachShader'', [ret (drv (length (calls w2)) ''glCreateProgram''), f]),
              (''glLinkProgram'', [ret (drv (length (calls w2)) ''glCreateProgram'')]),
              (''glGetProgramiv'',
                 [ret (drv (length (calls w2)) ''glCreateProgram''), GL_LINK_STATUS])]"
        by (simp add: init_triangle_def v f s2 run_prims Let_def eval_nat_numeral)
      from missing_stage_link_status [OF m this z'] False show ?thesis by simp
    qed
  qed
qed

text \<open>
  Claim C8. When the driver hands out a shader object and reports that its compilation
  failed, \<^verbatim>\<open>LoadShader\<close> asks for the length of the info log, fetches and prints the log
  only if that length is above 1 (the log is not empty), deletes the shader object as
  its last call and returns 0. \<^verbatim>\<open>CompileProgram\<close> and \<^verbatim>\<open>init_triangle\<close> do not test
  that handle: they attach it as it is. With a driver that does not link a program one
  of whose stages is missing (\<open>missing_stage_not_linked\<close>), a stage for which
  \<^verbatim>\<open>LoadShader\<close> returned 0 makes both return the program handle 0.
\<close>

theorem LoadShader_compile_failure:
  assumes "status w = Running"
  shows "(ret (drv (length (calls w)) ''glCreateShader'') \<noteq> 0
          \<and> outp (drv (length (calls w) + 3) ''glGetShaderiv'') = 0 \<longrightarrow>
          (let n = length (calls w);
             shader = ret (drv n ''glCreateShader'');
             infoLen = outp (drv (n + 4) ''glGetShaderiv'');
             (handle, w') = run_state (LoadShader drv type shaderSrc) w
         in handle = 0 \<and> status w' = Running
            \<and> calls w' = calls w
                 @ [(''glCreateShader'', [type]), (''glShaderSource'', [shader]),
                    (''glCompileShader'', [shader]),
                    (''glGetShaderiv'', [shader, GL_COMPILE_STATUS]),
                    (''glGetShaderiv'', [shader, GL_INFO_LOG_LENGTH])]
                 @ (if 1 <s infoLen then [(''glGetShaderInfoLog'', [shader, infoLen])] else [])
                 @ [(''glDeleteShader'', [shader])]
            \<and> out w' = out w
                 @ (if 1 <s infoLen
                    then [ErrorCompilingShader (chars (drv (n + 5) ''glGetShaderInfoLog''))]
                    else [])))
     \<and> ((fst (run_state (LoadShader drv GL_VERTEX_SHADER vsSource) w) = 0
          \<or> fst (run_state (LoadShader drv GL_FRAGMENT_SHADER fsSource)
                    (snd (run_state (LoadShader drv GL_VERTEX_SHADER vsSource) w))) = 0)
         \<and> missing_stage_not_linked drv
              (snd (run_state (CompileProgram drv vsSource fsSource) w)) \<longrightarrow>
         fst (run_state (CompileProgram drv vsSource fsSource) w) = 0)
     \<and> ((fst (run_state (LoadShader drv GL_VERTEX_SHADER vShaderStr) w) = 0
          \<or> fst (run_state (LoadShader drv GL_FRAGMENT_SHADER fShaderStr)
                    (snd (run_state (LoadShader drv GL_VERTEX_SHADER vShaderStr) w))) = 0)
         \<and> missing_stage_not_linked drv (snd (run_state (init_triangle drv) w)) \<longrightarrow>
         fst (run_state (init_triangle drv) w) = 0)"
proof (intro conjI impI)
  assume "ret (drv (length (calls w)) ''glCreateShader'') \<noteq> 0
          \<and> outp (drv (length (calls w) + 3) ''glGetShaderiv'') = 0"
  with assms show "let n = length (calls w);
             shader = ret (drv n ''glCreateShader'');
             infoLen = outp (drv (n + 4) ''glGetShaderiv'');
             (handle, w') = run_state (LoadShader drv type shaderSrc) w
         in handle = 0 \<and> status w' = Running
            \<and> calls w' = calls w
                 @ [(''glCreateShader'', [type]), (''glShaderSource'', [shader]),
                    (''glCompileShader'', [shader]),
                    (''glGetShaderiv'', [shader, GL_COMPILE_STATUS]),
                    (''glGetShaderiv'', [shader, GL_INFO_LOG_LENGTH])]
                 @ (if 1 <s infoLen then [(''glGetShaderInfoLog'', [shader, infoLen])] else [])
                 @ [(''glDeleteShader'', [shader])]
            \<and> out w' = out w
                 @ (if 1 <s infoLen
                    then [ErrorCompilingShader (chars (drv (n + 5) ''glGetShaderInfoLog''))]
                    else [])"
    by (simp add: LoadShader_def run_prims Let_def eval_nat_numeral)
next
  assume "(fst (run_state (LoadShader drv GL_VERTEX_SHADER vsSource) w) = 0
          \<or> fst (run_state (LoadShader drv GL_FRAGMENT_SHADER fsSource)
                    (snd (run_state (LoadShader drv GL_VERTEX_SHADER vsSource) w))) = 0)
         \<and> missing_stage_not_linked drv
              (snd (run_state (CompileProgram drv vsSource fsSource) w))"
  with assms show "fst (run_state (CompileProgram drv vsSource fsSource) w) = 0"
    using CompileProgram_missing_stage by blast
next
  assume "(fst (run_state (LoadShader drv GL_VERTEX_SHADER vShaderStr) w) = 0
          \<or> fst (run_state (LoadShader drv GL_FRAGMENT_SHADER fShaderStr)
                    (snd (run_state (LoadShader drv GL_VERTEX_SHADER vShaderStr) w))) = 0)
         \<and> missing_stage_not_linked drv (snd (run_state (init_triangle drv) w))"
  with assms show "fst (run_state (init_triangle drv) w) = 0"
    using init_triangle_missing_stage by blast
qed

lemma vertex_stage_rejected_trace:
  "run_state (CompileProgram vertex_stage_rejected kVS kFS) process_start
     = (0, \<lparr>calls = [(''glCreateShader'', [GL_VERTEX_SHADER]), (''glShaderSource'', [1]),
                 (''glCompileShader'', [1]), (''glGetShaderiv'', [1, GL_COMPILE_STATUS]),
                 (''glGetShaderiv'', [1, GL_INFO_LOG_LENGTH]), (''glGetShaderInfoLog'', [1, 6]),
                 (''glDeleteShader'', [1]),
                 (''glCreateShader'', [GL_FRAGMENT_SHADER]), (''glShaderSource'', [1]),
                 (''glCompileShader'', [1]), (''glGetShaderiv'', [1, GL_COMPILE_STATUS]),
                 (''glCreateProgram'', []), (''glAttachShader'', [1, 0]),
                 (''glAttachShader'', [1, 1]), (''glLinkProgram'', [1]),
                 (''glGetProgramiv'', [1, GL_LINK_STATUS]),
                 (''glGetProgramiv'', [1, GL_INFO_LOG_LENGTH]), (''glDeleteProgram'', [1])],
              out = [ErrorCompilingShader ''error''], status = Running\<rparr>)"
  by (simp add: CompileProgram_def LoadShader_def run_prims vertex_stage_rejected_def
      test_driver_defs Let_def word_sless_alt)

lemma vertex_stage_rejected_not_linked:
  "missing_stage_not_linked vertex_stage_rejected
     (snd (run_state (CompileProgram vertex_stage_rejected kVS kFS) process_start))"
  unfolding vertex_stage_rejected_trace missing_stage_not_linked_def
  by (simp add: All_less_Suc eval_nat_numeral egl_enum_defs vertex_stage_rejected_def)

lemma vertex_stage_rejected_trace_single:
  "run_state (init_triangle vertex_stage_rejected) process_start
     = (0, \<lparr>calls = [(''glCreateShader'', [GL_VERTEX_SHADER]), (''glShaderSource'', [1]),
                 (''glCompileShader'', [1]), (''glGetShaderiv'', [1, GL_COMPILE_STATUS]),
                 (''glGetShaderiv'', [1, GL_INFO_LOG_LENGTH]), (''glGetShaderInfoLog'', [1, 6]),
                 (''glDeleteShader'', [1]),
                 (''glCreateShader'', [GL_FRAGMENT_SHADER]), (''glShaderSource'', [1]),
                 (''glCompileShader'', [1]), (''glGetShaderiv'', [1, GL_COMPILE_STATUS]),
                 (''glCreateProgram'', []), (''glAttachShader'', [1, 0]),
                 (''glAttachShader'', [1, 1]), (''glLinkProgram'', [1]),
                 (''glGetProgramiv'', [1, GL_LINK_STATUS]),
                 (''glGetProgramiv'', [1, GL_INFO_LOG_LENGTH]), (''glDeleteProgram'', [1])],
              out = [ErrorCompilingShader ''error''], status = Running\<rparr>)"
  by (simp add: init_triangle_def LoadShader_def run_prims vertex_stage_rejected_def
      test_driver_defs Let_def word_sless_alt)

lemma vertex_stage_rejected_not_linked_single:
  "missing_stage_not_linked vertex_stage_rejected
     (snd (run_state (init_triangle vertex_stage_rejected) process_start))"
  unfolding vertex_stage_rejected_trace_single missing_stage_not_linked_def
  by (simp add: All_less_Suc eval_nat_numeral egl_enum_defs vertex_stage_rejected_def)

lemma vertex_stage_rejected_stage:
  "fst (run_state (LoadShader vertex_stage_rejected GL_VERTEX_SHADER src) process_start) = 0"
  by (simp add: LoadShader_def run_prims vertex_stage_rejected_def test_driver_defs Let_def
      word_sless_alt)

theorem LoadShader_compile_failure_witness:
  "status process_start = Running
   \<and> ret (compile_fails (length (calls process_start)) ''glCreateShader'') \<noteq> 0
   \<and> outp (compile_fails (length (calls process_start) + 3) ''glGetShaderiv'') = 0
   \<and> fst (run_state (LoadShader compile_fails GL_VERTEX_SHADER vShaderStr) process_start) = 0
   \<and> calls (snd (run_state (LoadShader compile_fails GL_VERTEX_SHADER vShaderStr) process_start))
       = [(''glCreateShader'', [GL_VERTEX_SHADER]), (''glShaderSource'', [1]),
          (''glCompileShader'', [1]), (''glGetShaderiv'', [1, GL_COMPILE_STATUS]),
          (''glGetShaderiv'', [1, GL_INFO_LOG_LENGTH]), (''glGetShaderInfoLog'', [1, 6]),
          (''glDeleteShader'', [1])]
   \<and> out (snd (run_state (LoadShader compile_fails GL_VERTEX_SHADER vShaderStr) process_start))
       = [ErrorCompilingShader ''error'']
   \<and> fst (run_state (LoadShader vertex_stage_rejected GL_VERTEX_SHADER kVS) process_start) = 0
   \<and> missing_stage_not_linked vertex_stage_rejected
        (snd (run_state (CompileProgram vertex_stage_rejected kVS kFS) process_start))
   \<and> fst (run_state (CompileProgram vertex_stage_rejected kVS kFS) process_start) = 0
   \<and> fst (run_state (LoadShader vertex_stage_rejected GL_VERTEX_SHADER vShaderStr)
             process_start) = 0
   \<and> missing_stage_not_linked vertex_stage_rejected
        (snd (run_state (init_triangle vertex_stage_rejected) process_start))
   \<and> fst (run_state (init_triangle vertex_stage_rejected) process_start) = 0"
proof -
  have h: "status process_start = Running" by (simp add: process_start_def)
  have g: "ret (compile_fails (length (calls process_start)) ''glCreateShader'') \<noteq> 0"
    "outp (compile_fails (length (calls process_start) + 3) ''glGetShaderiv'') = 0"
    by (simp_all add: test_driver_defs)
  have r: "ret (compile_fails 0 ''glCreateShader'') = 1"
    "outp (compile_fails 4 ''glGetShaderiv'') = 6"
    "chars (compile_fails 5 ''glGetShaderInfoLog'') = ''error''"
    by (simp_all add: test_driver_defs)
  have s: "calls process_start = []" "out process_start = []"
    by (simp_all add: process_start_def)
  from LoadShader_compile_failure [OF h, of compile_fails GL_VERTEX_SHADER vShaderStr] g
  have 1: "fst (run_state (LoadShader compile_fails GL_VERTEX_SHADER vShaderStr) process_start) = 0
   \<and> calls (snd (run_state (LoadShader compile_fails GL_VERTEX_SHADER vShaderStr) process_start))
       = [(''glCreateShader'', [GL_VERTEX_SHADER]), (''glShaderSource'', [1]),
          (''glCompileShader'', [1]), (''glGetShaderiv'', [1, GL_COMPILE_STATUS]),
          (''glGetShaderiv'', [1, GL_INFO_LOG_LENGTH]), (''glGetShaderInfoLog'', [1, 6]),
          (''glDeleteShader'', [1])]
   \<and> out (snd (run_state (LoadShader compile_fails GL_VERTEX_SHADER vShaderStr) process_start))
       = [ErrorCompilingShader ''error'']"
    by (simp add: Let_def case_prod_beta r s word_sless_alt)
  note v = vertex_stage_rejected_stage
  note m = vertex_stage_rejected_not_linked vertex_stage_rejected_not_linked_single
  from LoadShader_compile_failure
    [OF h, of vertex_stage_rejected GL_VERTEX_SHADER vShaderStr kVS kFS] v m
  have 2: "fst (run_state (CompileProgram vertex_stage_rejected kVS kFS) process_start) = 0"
    and 3: "fst (run_state (init_triangle vertex_stage_rejected) process_start) = 0"
    by blast+
  from h g 1 2 3 v m show ?thesis by (intro conjI) blast+
qed

text \<open>
  The assumption on the driver is needed: \<^verbatim>\<open>CompileProgram\<close> does not look at the handle
  that \<^verbatim>\<open>LoadShader\<close> returned, so with a driver that reports the link of a program
  without vertex stage as successful it attaches 0 and returns the program.
\<close>

lemma CompileProgram_relies_on_driver:
  "fst (run_state (LoadShader compile_fails GL_VERTEX_SHADER kVS) process_start) = 0
   \<and> run_state (CompileProgram compile_fails kVS kFS) process_start
     = (1, \<lparr>calls = [(''glCreateShader'', [GL_VERTEX_SHADER]), (''glShaderSource'', [1]),
                 (''glCompileShader'', [1]), (''glGetShaderiv'', [1, GL_COMPILE_STATUS]),
                 (''glGetShaderiv'', [1, GL_INFO_LOG_LENGTH]), (''glGetShaderInfoLog'', [1, 6]),
                 (''glDeleteShader'', [1]),
                 (''glCreateShader'', [GL_FRAGMENT_SHADER]), (''glShaderSource'', [1]),
                 (''glCompileShader'', [1]), (''glGetShaderiv'', [1, GL_COMPILE_STATUS]),
                 (''glCreateProgram'', []), (''glAttachShader'', [1, 0]),
                 (''glAttachShader'', [1, 1]), (''glLinkProgram'', [1]),
                 (''glGetProgramiv'', [1, GL_LINK_STATUS])],
              out = [ErrorCompilingShader ''error''], status = Running\<rparr>)"
  by (simp add: CompileProgram_def LoadShader_def run_prims test_driver_defs Let_def
      word_sless_alt)

section \<open>Driver errors during setup\<close>

text \<open>
  Claim C3, as the code has it. Each of the four setup blocks is run from the start of
  its thread with an arbitrary driver, and its whole result is given: the calls made,
  the lines printed, the status and, for a process that is still running, whether the
  function goes on.

  multithreads.cpp. \<^verbatim>\<open>main\<close> checks \<^verbatim>\<open>eglGetDisplay\<close>, \<^verbatim>\<open>eglInitialize\<close>,
  \<^verbatim>\<open>eglGetConfigs\<close> and \<^verbatim>\<open>eglBindAPI\<close>, session A checks \<^verbatim>\<open>eglCreatePbufferSurface\<close>
  and \<^verbatim>\<open>eglCreateContext\<close>, session B checks \<^verbatim>\<open>eglCreateContext\<close>,
  \<^verbatim>\<open>eglCreatePbufferSurface\<close> and \<^verbatim>\<open>eglMakeCurrent\<close>, each right after the call. The
  first check that finds an error prints the error code with the name of the call and
  ends the process with \<^verbatim>\<open>exit(-1)\<close>; no call follows. The two \<^verbatim>\<open>eglChooseConfig\<close>
  calls of \<^verbatim>\<open>main\<close> and the \<^verbatim>\<open>eglMakeCurrent\<close> of session A are checked only when the
  call reports a failure (or no usable number of configurations): an error that the
  driver then reports is printed and ends the process, and without one \<^verbatim>\<open>main\<close>
  returns 0 having printed nothing and session A returns after the line
  \<^verbatim>\<open>failed to create context\<close>.

  offscreen\_egl.cpp. Every check only prints. After a reported error of
  \<^verbatim>\<open>eglGetDisplay\<close>, \<^verbatim>\<open>eglInitialize\<close>, \<^verbatim>\<open>eglGetConfigs\<close>, \<^verbatim>\<open>eglBindAPI\<close>,
  \<^verbatim>\<open>eglCreateContext\<close>, \<^verbatim>\<open>eglCreatePbufferSurface\<close> or \<^verbatim>\<open>eglMakeCurrent\<close> the next
  call is made all the same and \<^verbatim>\<open>main\<close> goes on. After an \<^verbatim>\<open>eglChooseConfig\<close> that
  fails or finds no configuration the check prints the error, if there is one, and
  \<^verbatim>\<open>main\<close> returns 0.

  In both programs a negative number of configurations ends the process in the
  constructor of the vector.
\<close>

theorem setup_error_policies:
  "(let error = (\<lambda>i. ret (drv i ''eglGetError''));
        failed = (\<lambda>i. error i \<noteq> EGL_SUCCESS);
        ended = (\<lambda>evs ls i label.
           \<lparr>calls = evs, out = ls @ [EGLErrorAt (error i) label], status = Exited (- 1)\<rparr>);
        report = egl_report drv;
        check = (''eglGetError'', []);
        display = [(''eglGetDisplay'', []), check, (''eglInitialize'', []), check,
                   (''eglGetConfigs'', []), check];
        pick = (''eglChooseConfig'', []);
        count = outp (drv 4 ''eglGetConfigs'');
        no_config = (ret (drv 6 ''eglChooseConfig'') = 0 \<or> outp (drv 6 ''eglChooseConfig'') = 0
                     \<or> count <s outp (drv 6 ''eglChooseConfig''));
        no_config1 = (ret (drv 7 ''eglChooseConfig'') = 0 \<or> outp (drv 7 ''eglChooseConfig'') = 0);
        surface = (\<lambda>w h. (''eglCreatePbufferSurface'', [EGL_WIDTH, w, EGL_HEIGHT, h, EGL_NONE]));
        context = (\<lambda>v. (''eglCreateContext'', [EGL_CONTEXT_CLIENT_VERSION, v, EGL_NONE]));
        activate = (''eglMakeCurrent'', []);
        sa = surface (ctx_width glCtx) (ctx_height glCtx);
        inside = Text ''Thread inside'';
        tdcs = Text ''thread display context surface'';
        main_mt_setup = run_state (egl_setup_mt drv) process_start;
        a_setup = run_state (thread_a_egl_setup drv glCtx) process_start;
        b_setup = run_state (thread_b_egl_setup drv glCtx) process_start;
        main_single_setup = run_state (egl_setup_single drv width height) process_start
    in snd main_mt_setup =
         (if failed 1 then ended (take 2 display) [] 1 ''eglGetDisplay''
          else if failed 3 then ended (take 4 display) [] 3 ''eglInitialize''
          else if failed 5 then ended display [] 5 ''eglGetConfigs''
          else if count <s 0 then \<lparr>calls = display, out = [], status = Terminated\<rparr>
          else if no_config
            then (if failed 7 then ended (display @ [pick, check]) [] 7 ''eglChooseConfig''
                  else \<lparr>calls = display @ [pick, check], out = [], status = Running\<rparr>)
          else if no_config1
            then (if failed 8 then ended (display @ [pick, pick, check]) [] 8 ''eglChooseConfig''
                  else \<lparr>calls = display @ [pick, pick, check], out = [], status = Running\<rparr>)
          else if failed 9
            then ended (display @ [pick, pick, (''eglBindAPI'', []), check]) [] 9 ''eglBindAPI''
          else \<lparr>calls = display @ [pick, pick, (''eglBindAPI'', []), check], out = [],
                 status = Running\<rparr>)
       \<and> (status (snd main_mt_setup) = Running \<longrightarrow>
            fst main_mt_setup = (\<not> no_config \<and> \<not> no_config1))
       \<and> snd a_setup =
         (if failed 1 then ended [sa, check] [inside] 1 ''eglCreatePbufferSurface''
          else if failed 3 then ended [sa, check, context 2, check] [inside] 3 ''eglCreateContext''
          else if ret (drv 4 ''eglMakeCurrent'') = 0
            then (if failed 5
                  then ended [sa, check, context 2, check, activate, check] [inside, tdcs] 5
                         ''eglMakeCurrent''
                  else \<lparr>calls = [sa, check, context 2, check, activate, check],
                         out = [inside, tdcs, Text ''failed to create context''],
                         status = Running\<rparr>)
          else \<lparr>calls = [sa, check, context 2, check, activate], out = [inside, tdcs],
                 status = Running\<rparr>)
       \<and> (status (snd a_setup) = Running \<longrightarrow> fst a_setup = (ret (drv 4 ''eglMakeCurrent'') \<noteq> 0))
       \<and> snd b_setup =
         (if failed 1 then ended [context 2, check] [inside] 1 ''eglCreateContext''
          else if failed 3
            then ended [context 2, check, sa, check] [inside] 3 ''eglCreatePbufferSurface''
          else if failed 5
            then ended [context 2, check, sa, check, activate, check] [inside] 5 ''eglMakeCurrent''
          else \<lparr>calls = [context 2, check, sa, check, activate, check], out = [inside],
                 status = Running\<rparr>)
       \<and> snd main_single_setup =
         (if count <s 0
          then \<lparr>calls = display,
                 out = report 1 ''eglGetDisplay'' @ report 3 ''eglInitialize''
                       @ report 5 ''eglGetConfigs'',
                 status = Terminated\<rparr>
          else if no_config
          then \<lparr>calls = display @ [pick, check],
                 out = report 1 ''eglGetDisplay'' @ report 3 ''eglInitialize''
                       @ report 5 ''eglGetConfigs'' @ report 7 ''eglChooseConfig'',
                 status = Running\<rparr>
          else if no_config1
          then \<lparr>calls = display @ [pick, pick, check],
                 out = report 1 ''eglGetDisplay'' @ report 3 ''eglInitialize''
                       @ report 5 ''eglGetConfigs'' @ report 8 ''eglChooseConfig'',
                 status = Running\<rparr>
          else \<lparr>calls = display
                   @ [pick, pick, (''eglBindAPI'', []), check, context es_version, check,
                      surface width height, check, activate, check],
                 out = report 1 ''eglGetDisplay'' @ report 3 ''eglInitialize''
                       @ report 5 ''eglGetConfigs'' @ report 9 ''eglBindAPI''
                       @ report 11 ''eglCreateContext'' @ report 13 ''eglCreatePbufferSurface''
                       @ report 15 ''eglMakeCurrent'',
                 status = Running\<rparr>)
       \<and> (status (snd main_single_setup) = Running \<longrightarrow>
            fst main_single_setup = (\<not> no_config \<and> \<not> no_config1)))"
  unfolding Let_def
  apply (intro conjI)
  subgoal
  proof (cases "ret (drv 1 ''eglGetError'') = EGL_SUCCESS")
    case False
    then show ?thesis by (simp add: egl_setup_mt_def setup_simps)
  next
    case c1: True
    show ?thesis
    proof (cases "ret (drv 3 ''eglGetError'') = EGL_SUCCESS")
      case False
      with c1 show ?thesis by (simp add: egl_setup_mt_def setup_simps)
    next
      case c2: True
      show ?thesis
      proof (cases "ret (drv 5 ''eglGetError'') = EGL_SUCCESS")
        case False
        with c1 c2 show ?thesis by (simp add: egl_setup_mt_def setup_simps)
      next
        case c3: True
        show ?thesis
        proof (cases "outp (drv 4 ''eglGetConfigs'') <s 0")
          case True
          with c1 c2 c3 show ?thesis by (simp add: egl_setup_mt_def setup_simps)
        next
          case v: False
          show ?thesis
          proof (cases "ret (drv 6 ''eglChooseConfig'') = 0 \<or> outp (drv 6 ''eglChooseConfig'') = 0
                \<or> outp (drv 4 ''eglGetConfigs'') <s outp (drv 6 ''eglChooseConfig'')")
            case True
            with c1 c2 c3 v show ?thesis
              by (cases "ret (drv 7 ''eglGetError'') = EGL_SUCCESS")
                 (simp_all add: egl_setup_mt_def setup_simps)
          next
            case k1: False
            show ?thesis
            proof (cases "ret (drv 7 ''eglChooseConfig'') = 0 \<or> outp (drv 7 ''eglChooseConfig'') = 0")
              case True
              with c1 c2 c3 v k1 show ?thesis
                by (cases "ret (drv 8 ''eglGetError'') = EGL_SUCCESS")
                   (simp_all add: egl_setup_mt_def setup_simps)
            next
              case False
              with c1 c2 c3 v k1 show ?thesis
                by (cases "ret (drv 9 ''eglGetError'') = EGL_SUCCESS")
                   (simp_all add: egl_setup_mt_def setup_simps)
            qed
          qed
        qed
      qed
    qed
  qed
  subgoal
  proof (cases "ret (drv 1 ''eglGetError'') = EGL_SUCCESS")
    case False
    then show ?thesis by (simp add: egl_setup_mt_def setup_simps)
  next
    case c1: True
    show ?thesis
    proof (cases "ret (drv 3 ''eglGetError'') = EGL_SUCCESS")
      case False
      with c1 show ?thesis by (simp add: egl_setup_mt_def setup_simps)
    next
      case c2: True
      show ?thesis
      proof (cases "ret (drv 5 ''eglGetError'') = EGL_SUCCESS")
        case False
        with c1 c2 show ?thesis by (simp add: egl_setup_mt_def setup_simps)
      next
        case c3: True
        show ?thesis
        proof (cases "outp (drv 4 ''eglGetConfigs'') <s 0")
          case True
          with c1 c2 c3 show ?thesis by (simp add: egl_setup_mt_def setup_simps)
        next
          case v: False
          show ?thesis
          proof (cases "ret (drv 6 ''eglChooseConfig'') = 0 \<or> outp (drv 6 ''eglChooseConfig'') = 0
                \<or> outp (drv 4 ''eglGetConfigs'') <s outp (drv 6 ''eglChooseConfig'')")
            case True
            with c1 c2 c3 v show ?thesis
              by (cases "ret (drv 7 ''eglGetError'') = EGL_SUCCESS")
                 (simp_all add: egl_setup_mt_def setup_simps)
          next
            case k1: False
            show ?thesis
            proof (cases "ret (drv 7 ''eglChooseConfig'') = 0 \<or> outp (drv 7 ''eglChooseConfig'') = 0")
              case True
              with c1 c2 c3 v k1 show ?thesis
                by (cases "ret (drv 8 ''eglGetError'') = EGL_SUCCESS")
                   (simp_all add: egl_setup_mt_def setup_simps)
            next
              case False
              with c1 c2 c3 v k1 show ?thesis
                by (cases "ret (drv 9 ''eglGetError'') = EGL_SUCCESS")
                   (simp_all add: egl_setup_mt_def setup_simps)
            qed
          qed
        qed
      qed
    qed
  qed
  subgoal
    by (cases "ret (drv 1 ''eglGetError'') = EGL_SUCCESS";
        cases "ret (drv 3 ''eglGetError'') = EGL_SUCCESS";
        cases "ret (drv 4 ''eglMakeCurrent'') = 0";
        cases "ret (drv 5 ''eglGetError'') = EGL_SUCCESS")
       (simp_all add: thread_a_egl_setup_def setup_simps)
  subgoal
    by (cases "ret (drv 1 ''eglGetError'') = EGL_SUCCESS";
        cases "ret (drv 3 ''eglGetError'') = EGL_SUCCESS";
        cases "ret (drv 4 ''eglMakeCurrent'') = 0";
        cases "ret (drv 5 ''eglGetError'') = EGL_SUCCESS")
       (simp_all add: thread_a_egl_setup_def setup_simps)
  subgoal
    by (cases "ret (drv 1 ''eglGetError'') = EGL_SUCCESS";
        cases "ret (drv 3 ''eglGetError'') = EGL_SUCCESS";
        cases "ret (drv 5 ''eglGetError'') = EGL_SUCCESS")
       (simp_all add: thread_b_egl_setup_def setup_simps)
  subgoal
    by (cases "outp (drv 4 ''eglGetConfigs'') <s 0";
        cases "ret (drv 6 ''eglChooseConfig'') = 0 \<or> outp (drv 6 ''eglChooseConfig'') = 0
                \<or> outp (drv 4 ''eglGetConfigs'') <s outp (drv 6 ''eglChooseConfig'')";
        cases "ret (drv 7 ''eglChooseConfig'') = 0 \<or> outp (drv 7 ''eglChooseConfig'') = 0")
       (simp_all add: egl_setup_single_def setup_simps)
  subgoal
    by (cases "outp (drv 4 ''eglGetConfigs'') <s 0";
        cases "ret (drv 6 ''eglChooseConfig'') = 0 \<or> outp (drv 6 ''eglChooseConfig'') = 0
                \<or> outp (drv 4 ''eglGetConfigs'') <s outp (drv 6 ''eglChooseConfig'')";
        cases "ret (drv 7 ''eglChooseConfig'') = 0 \<or> outp (drv 7 ''eglChooseConfig'') = 0")
       (simp_all add: egl_setup_single_def setup_simps)
  done

theorem setup_error_policies_witness:
  "snd (run_state (thread_b_egl_setup create_context_fails glCtx512) process_start)
     = \<lparr>calls = [(''eglCreateContext'', [EGL_CONTEXT_CLIENT_VERSION, 2, EGL_NONE]),
                 (''eglGetError'', [])],
        out = [Text ''Thread inside'', EGLErrorAt EGL_BAD_ATTRIBUTE ''eglCreateContext''],
        status = Exited (- 1)\<rparr>
   \<and> snd (run_state (thread_a_egl_setup create_context_fails glCtx512) process_start)
     = \<lparr>calls = [(''eglCreatePbufferSurface'', [EGL_WIDTH, 512, EGL_HEIGHT, 512, EGL_NONE]),
                 (''eglGetError'', [])],
        out = [Text ''Thread inside'', EGLErrorAt EGL_BAD_ATTRIBUTE ''eglCreatePbufferSurface''],
        status = Exited (- 1)\<rparr>
   \<and> run_state (thread_a_egl_setup quiet_driver glCtx512) process_start
     = (True,
        \<lparr>calls = [(''eglCreatePbufferSurface'', [EGL_WIDTH, 512, EGL_HEIGHT, 512, EGL_NONE]),
                  (''eglGetError'', []),
                  (''eglCreateContext'', [EGL_CONTEXT_CLIENT_VERSION, 2, EGL_NONE]),
                  (''eglGetError'', []), (''eglMakeCurrent'', [])],
         out = [Text ''Thread inside'', Text ''thread display context surface''],
         status = Running\<rparr>)
   \<and> snd (run_state (egl_setup_mt create_context_fails) process_start)
     = \<lparr>calls = [(''eglGetDisplay'', []), (''eglGetError'', [])],
        out = [EGLErrorAt EGL_BAD_ATTRIBUTE ''eglGetDisplay''],
        status = Exited (- 1)\<rparr>
   \<and> run_state (egl_setup_mt quiet_driver) process_start
     = (True,
        \<lparr>calls = [(''eglGetDisplay'', []), (''eglGetError'', []), (''eglInitialize'', []),
                  (''eglGetError'', []), (''eglGetConfigs'', []), (''eglGetError'', []),
                  (''eglChooseConfig'', []), (''eglChooseConfig'', []), (''eglBindAPI'', []),
                  (''eglGetError'', [])],
         out = [], status = Running\<rparr>)
   \<and> run_state (egl_setup_mt no_config_found) process_start
     = (False,
        \<lparr>calls = [(''eglGetDisplay'', []), (''eglGetError'', []), (''eglInitialize'', []),
                  (''eglGetError'', []), (''eglGetConfigs'', []), (''eglGetError'', []),
                  (''eglChooseConfig'', []), (''eglGetError'', [])],
         out = [], status = Running\<rparr>)
   \<and> run_state (egl_setup_single create_context_fails_single 512 512) process_start
     = (True,
        \<lparr>calls = [(''eglGetDisplay'', []), (''eglGetError'', []), (''eglInitialize'', []),
                  (''eglGetError'', []), (''eglGetConfigs'', []), (''eglGetError'', []),
                  (''eglChooseConfig'', []), (''eglChooseConfig'', []), (''eglBindAPI'', []),
                  (''eglGetError'', []),
                  (''eglCreateContext'', [EGL_CONTEXT_CLIENT_VERSION, 3, EGL_NONE]),
                  (''eglGetError'', []),
                  (''eglCreatePbufferSurface'', [EGL_WIDTH, 512, EGL_HEIGHT, 512, EGL_NONE]),
                  (''eglGetError'', []), (''eglMakeCurrent'', []), (''eglGetError'', [])],
         out = [EGLErrorAt EGL_BAD_ATTRIBUTE ''eglCreateContext''],
         status = Running\<rparr>)
   \<and> run_state (egl_setup_single no_config_found 512 512) process_start
     = (False,
        \<lparr>calls = [(''eglGetDisplay'', []), (''eglGetError'', []), (''eglInitialize'', []),
                  (''eglGetError'', []), (''eglGetConfigs'', []), (''eglGetError'', []),
                  (''eglChooseConfig'', []), (''eglGetError'', [])],
         out = [], status = Running\<rparr>)"
proof -
  note d = create_context_fails_def create_context_fails_single_def no_config_found_def
    test_driver_defs egl_enum_defs es_version_def egl_report_def word_sless_alt
  note t = setup_error_policies
  from t [of create_context_fails glCtx512 512 512]
  have 1: "snd (run_state (thread_b_egl_setup create_context_fails glCtx512) process_start)
     = \<lparr>calls = [(''eglCreateContext'', [EGL_CONTEXT_CLIENT_VERSION, 2, EGL_NONE]),
                 (''eglGetError'', [])],
        out = [Text ''Thread inside'', EGLErrorAt EGL_BAD_ATTRIBUTE ''eglCreateContext''],
        status = Exited (- 1)\<rparr>"
    and 2: "snd (run_state (thread_a_egl_setup create_context_fails glCtx512) process_start)
     = \<lparr>calls = [(''eglCreatePbufferSurface'', [EGL_WIDTH, 512, EGL_HEIGHT, 512, EGL_NONE]),
                 (''eglGetError'', [])],
        out = [Text ''Thread inside'', EGLErrorAt EGL_BAD_ATTRIBUTE ''eglCreatePbufferSurface''],
        status = Exited (- 1)\<rparr>"
    and 3: "snd (run_state (egl_setup_mt create_context_fails) process_start)
     = \<lparr>calls = [(''eglGetDisplay'', []), (''eglGetError'', [])],
        out = [EGLErrorAt EGL_BAD_ATTRIBUTE ''eglGetDisplay''],
        status = Exited (- 1)\<rparr>"
    by (simp_all add: Let_def d)
  from t [of quiet_driver glCtx512 512 512]
  have 4: "run_state (thread_a_egl_setup quiet_driver glCtx512) process_start
     = (True,
        \<lparr>calls = [(''eglCreatePbufferSurface'', [EGL_WIDTH, 512, EGL_HEIGHT, 512, EGL_NONE]),
                  (''eglGetError'', []),
                  (''eglCreateContext'', [EGL_CONTEXT_CLIENT_VERSION, 2, EGL_NONE]),
                  (''eglGetError'', []), (''eglMakeCurrent'', [])],
         out = [Text ''Thread inside'', Text ''thread display context surface''],
         status = Running\<rparr>)"
    and 5: "run_state (egl_setup_mt quiet_driver) process_start
     = (True,
        \<lparr>calls = [(''eglGetDisplay'', []), (''eglGetError'', []), (''eglInitialize'', []),
                  (''eglGetError'', []), (''eglGetConfigs'', []), (''eglGetError'', []),
                  (''eglChooseConfig'', []), (''eglChooseConfig'', []), (''eglBindAPI'', []),
                  (''eglGetError'', [])],
         out = [], status = Running\<rparr>)"
    by (simp_all add: Let_def d prod_eq_iff)
  from t [of no_config_found glCtx512 512 512]
  have 6: "run_state (egl_setup_mt no_config_found) process_start
     = (False,
        \<lparr>calls = [(''eglGetDisplay'', []), (''eglGetError'', []), (''eglInitialize'', []),
                  (''eglGetError'', []), (''eglGetConfigs'', []), (''eglGetError'', []),
                  (''eglChooseConfig'', []), (''eglGetError'', [])],
         out = [], status = Running\<rparr>)"
    and 7: "run_state (egl_setup_single no_config_found 512 512) process_start
     = (False,
        \<lparr>calls = [(''eglGetDisplay'', []), (''eglGetError'', []), (''eglInitialize'', []),
                  (''eglGetError'', []), (''eglGetConfigs'', []), (''eglGetError'', []),
                  (''eglChooseConfig'', []), (''eglGetError'', [])],
         out = [], status = Running\<rparr>)"
    by (simp_all add: Let_def d prod_eq_iff)
  from t [of create_context_fails_single glCtx512 512 512]
  have 8: "run_state (egl_setup_single create_context_fails_single 512 512) process_start
     = (True,
        \<lparr>calls = [(''eglGetDisplay'', []), (''eglGetError'', []), (''eglInitialize'', []),
                  (''eglGetError'', []), (''eglGetConfigs'', []), (''eglGetError'', []),
                  (''eglChooseConfig'', []), (''eglChooseConfig'', []), (''eglBindAPI'', []),
                  (''eglGetError'', []),
                  (''eglCreateContext'', [EGL_CONTEXT_CLIENT_VERSION, 3, EGL_NONE]),
                  (''eglGetError'', []),
                  (''eglCreatePbufferSurface'', [EGL_WIDTH, 512, EGL_HEIGHT, 512, EGL_NONE]),
                  (''eglGetError'', []), (''eglMakeCurrent'', []), (''eglGetError'', [])],
         out = [EGLErrorAt EGL_BAD_ATTRIBUTE ''eglCreateContext''],
         status = Running\<rparr>)"
    by (simp add: Let_def d prod_eq_iff)
  from 1 2 3 4 5 6 7 8 show ?thesis by (intro conjI)
qed

text \<open>
  In offscreen\_egl.cpp a failed \<^verbatim>\<open>eglCreateContext\<close> is reported, the setup goes on
  to create the surface and to activate, the process is still running, and \<^verbatim>\<open>main\<close>
  is told to go on.
\<close>

theorem setup_failure_not_fatal_single_counterexample:
  "ret (create_context_fails_single 11 ''eglGetError'') \<noteq> EGL_SUCCESS
   \<and> fst (run_state (egl_setup_single create_context_fails_single 512 512) process_start)
   \<and> status (snd (run_state (egl_setup_single create_context_fails_single 512 512)
         process_start)) = Running
   \<and> out (snd (run_state (egl_setup_single create_context_fails_single 512 512) process_start))
       = [EGLErrorAt EGL_BAD_ATTRIBUTE ''eglCreateContext'']
   \<and> calls (snd (run_state (egl_setup_single create_context_fails_single 512 512)
         process_start))
       = [(''eglGetDisplay'', []), (''eglGetError'', []), (''eglInitialize'', []),
          (''eglGetError'', []), (''eglGetConfigs'', []), (''eglGetError'', []),
          (''eglChooseConfig'', []), (''eglChooseConfig'', []), (''eglBindAPI'', []),
          (''eglGetError'', []),
          (''eglCreateContext'', [EGL_CONTEXT_CLIENT_VERSION, 3, EGL_NONE]),
          (''eglGetError'', []),
          (''eglCreatePbufferSurface'', [EGL_WIDTH, 512, EGL_HEIGHT, 512, EGL_NONE]),
          (''eglGetError'', []), (''eglMakeCurrent'', []), (''eglGetError'', [])]"
  by (simp add: egl_setup_single_def assertEGLError_single_def run_prims
      create_context_fails_single_def test_driver_defs egl_enum_defs es_version_def Let_def
      word_sless_alt)

section \<open>Driver errors during teardown\<close>

text \<open>
  Claim C4, as the code has it. In offscreen\_egl.cpp the teardown makes all of its calls
  whatever the checks find: a driver error found after the destruction of the surface,
  of the context or of the display connection is printed with its code and label and
  the process keeps running (the deletions of the framebuffer and of the texture are
  not checked). In multithreads.cpp the teardown of session B, the teardown written
  after the loop of session A and the release of the display connection at the end of
  \<^verbatim>\<open>main\<close> check \<^verbatim>\<open>eglDestroySurface\<close>, \<^verbatim>\<open>eglDestroyContext\<close> and \<^verbatim>\<open>eglTerminate\<close>
  (the deletions of OpenGL objects are not checked): the first check that finds an
  error prints it and ends the process with \<^verbatim>\<open>exit(-1)\<close>, and the calls that follow in
  the text are not made. The whole result of each of these blocks, started by a running
  process, is given for an arbitrary driver.
\<close>

theorem teardown_error_policies:
  "status w = Running \<Longrightarrow>
     (let n = length (calls w);
          report = (\<lambda>i label. if ret (drv i ''eglGetError'') \<noteq> EGL_SUCCESS
                               then [EGLErrorAt (ret (drv i ''eglGetError'')) label] else []);
          w' = snd (run_state (teardown_single drv frameBuffer tex) w);
          failed = (\<lambda>i. ret (drv i ''eglGetError'') \<noteq> EGL_SUCCESS);
          ended = (\<lambda>evs i label. w\<lparr>calls := calls w @ evs,
                                     out := out w @ [EGLErrorAt (ret (drv i ''eglGetError'')) label],
                                     status := Exited (- 1)\<rparr>)
      in calls w' = calls w
           @ [(''glDeleteFramebuffers'', [frameBuffer]), (''glDeleteTextures'', [tex]),
              (''eglDestroySurface'', []), (''eglGetError'', []),
              (''eglDestroyContext'', []), (''eglGetError'', []),
              (''eglTerminate'', []), (''eglGetError'', [])]
         \<and> out w' = out w @ report (n + 3) ''eglDestroySurface''
              @ report (n + 5) ''eglDestroyContext'' @ report (n + 7) ''eglTerminate''
         \<and> status w' = Running
         \<and> snd (run_state (thread_b_teardown drv frameBuffer tex) w) =
             (if failed (n + 3)
              then ended [(''glDeleteFramebuffers'', [frameBuffer]), (''glDeleteTextures'', [tex]),
                          (''eglDestroySurface'', []), (''eglGetError'', [])]
                     (n + 3) ''eglDestroySurface''
              else if failed (n + 5)
              then ended [(''glDeleteFramebuffers'', [frameBuffer]), (''glDeleteTextures'', [tex]),
                          (''eglDestroySurface'', []), (''eglGetError'', []),
                          (''eglDestroyContext'', []), (''eglGetError'', [])]
                     (n + 5) ''eglDestroyContext''
              else w\<lparr>calls := calls w
                     @ [(''glDeleteFramebuffers'', [frameBuffer]), (''glDeleteTextures'', [tex]),
                        (''eglDestroySurface'', []), (''eglGetError'', []),
                        (''eglDestroyContext'', []), (''eglGetError'', [])]\<rparr>)
         \<and> snd (run_state (thread_a_teardown drv a) w) =
             (if failed (n + 5)
              then ended [(''glDeleteFramebuffers'', [a_frameBuffer a]),
                          (''glDeleteTextures'', [a_tex a]), (''glDeleteProgram'', [a_mProgram a]),
                          (''glDeleteTextures'', [a_mTexture a]),
                          (''eglDestroySurface'', []), (''eglGetError'', [])]
                     (n + 5) ''eglDestroySurface''
              else if failed (n + 7)
              then ended [(''glDeleteFramebuffers'', [a_frameBuffer a]),
                          (''glDeleteTextures'', [a_tex a]), (''glDeleteProgram'', [a_mProgram a]),
                          (''glDeleteTextures'', [a_mTexture a]),
                          (''eglDestroySurface'', []), (''eglGetError'', []),
                          (''eglDestroyContext'', []), (''eglGetError'', [])]
                     (n + 7) ''eglDestroyContext''
              else w\<lparr>calls := calls w
                     @ [(''glDeleteFramebuffers'', [a_frameBuffer a]),
                        (''glDeleteTextures'', [a_tex a]), (''glDeleteProgram'', [a_mProgram a]),
                        (''glDeleteTextures'', [a_mTexture a]),
                        (''eglDestroySurface'', []), (''eglGetError'', []),
                        (''eglDestroyContext'', []), (''eglGetError'', [])]\<rparr>)
         \<and> snd (run_state (coordinator drv) w) =
             (if failed (n + 6)
              then ended [(''pthread_create'', [threadA]), (''sleep'', [unsigned_of_double (1 / 2)]),
                          (''pthread_create'', [threadB]), (''pthread_join'', [threadA]),
                          (''pthread_join'', [threadB]), (''eglTerminate'', []),
                          (''eglGetError'', [])]
                     (n + 6) ''eglTerminate''
              else w\<lparr>calls := calls w
                     @ [(''pthread_create'', [threadA]), (''sleep'', [unsigned_of_double (1 / 2)]),
                        (''pthread_create'', [threadB]), (''pthread_join'', [threadA]),
                        (''pthread_join'', [threadB]), (''eglTerminate'', []),
                        (''eglGetError'', [])]\<rparr>))"
  by (simp add: teardown_single_def thread_b_teardown_def thread_a_teardown_def coordinator_def
      assertEGLError_single_def run_assertEGLError_mt run_assertEGLError_mt_stopped run_prims Let_def eval_nat_numeral)

theorem teardown_error_policies_witness:
  "status process_start = Running
   \<and> calls (snd (run_state (teardown_single destroy_surface_fails 1 1) process_start))
       = [(''glDeleteFramebuffers'', [1]), (''glDeleteTextures'', [1]),
          (''eglDestroySurface'', []), (''eglGetError'', []),
          (''eglDestroyContext'', []), (''eglGetError'', []),
          (''eglTerminate'', []), (''eglGetError'', [])]
   \<and> out (snd (run_state (teardown_single destroy_surface_fails 1 1) process_start))
       = [EGLErrorAt EGL_BAD_SURFACE ''eglDestroySurface'']
   \<and> status (snd (run_state (teardown_single destroy_surface_fails 1 1) process_start)) = Running
   \<and> snd (run_state (thread_b_teardown destroy_surface_fails 1 1) process_start)
       = \<lparr>calls = [(''glDeleteFramebuffers'', [1]), (''glDeleteTextures'', [1]),
                   (''eglDestroySurface'', []), (''eglGetError'', [])],
          out = [EGLErrorAt EGL_BAD_SURFACE ''eglDestroySurface''],
          status = Exited (- 1)\<rparr>
   \<and> snd (run_state (thread_a_teardown destroy_context_fails_a a_session1) process_start)
       = \<lparr>calls = [(''glDeleteFramebuffers'', [1]), (''glDeleteTextures'', [1]),
                   (''glDeleteProgram'', [1]), (''glDeleteTextures'', [1]),
                   (''eglDestroySurface'', []), (''eglGetError'', []),
                   (''eglDestroyContext'', []), (''eglGetError'', [])],
          out = [EGLErrorAt EGL_BAD_ATTRIBUTE ''eglDestroyContext''],
          status = Exited (- 1)\<rparr>
   \<and> snd (run_state (coordinator terminate_fails) process_start)
       = \<lparr>calls = [(''pthread_create'', [threadA]), (''sleep'', [unsigned_of_double (1 / 2)]),
                   (''pthread_create'', [threadB]), (''pthread_join'', [threadA]),
                   (''pthread_join'', [threadB]), (''eglTerminate'', []),
                   (''eglGetError'', [])],
          out = [EGLErrorAt EGL_BAD_DISPLAY ''eglTerminate''],
          status = Exited (- 1)\<rparr>
   \<and> snd (run_state (coordinator quiet_driver) process_start)
       = \<lparr>calls = [(''pthread_create'', [threadA]), (''sleep'', [unsigned_of_double (1 / 2)]),
                   (''pthread_create'', [threadB]), (''pthread_join'', [threadA]),
                   (''pthread_join'', [threadB]), (''eglTerminate'', []),
                   (''eglGetError'', [])],
          out = [], status = Running\<rparr>"
proof -
  have h: "status process_start = Running" by (simp add: process_start_def)
  have s: "calls process_start = []" "out process_start = []"
    by (simp_all add: process_start_def)
  have r: "ret (destroy_surface_fails 3 ''eglGetError'') = EGL_BAD_SURFACE"
    "ret (destroy_surface_fails 5 ''eglGetError'') = EGL_SUCCESS"
    "ret (destroy_surface_fails 7 ''eglGetError'') = EGL_SUCCESS"
    "ret (destroy_context_fails_a 5 ''eglGetError'') = EGL_SUCCESS"
    "ret (destroy_context_fails_a 7 ''eglGetError'') = EGL_BAD_ATTRIBUTE"
    "ret (terminate_fails 6 ''eglGetError'') = EGL_BAD_DISPLAY"
    "ret (quiet_driver 6 ''eglGetError'') = EGL_SUCCESS"
    by (simp_all add: destroy_surface_fails_def destroy_context_fails_a_def terminate_fails_def
        test_driver_defs)
  have n: "EGL_BAD_SURFACE \<noteq> EGL_SUCCESS" "EGL_BAD_ATTRIBUTE \<noteq> EGL_SUCCESS"
    "EGL_BAD_DISPLAY \<noteq> EGL_SUCCESS"
    by (simp_all add: egl_enum_defs EGL_BAD_DISPLAY_def)
  have p: "process_start\<lparr>calls := evs, out := ls, status := st\<rparr>
      = \<lparr>calls = evs, out = ls, status = st\<rparr>"
    "process_start\<lparr>calls := evs\<rparr> = \<lparr>calls = evs, out = [], status = Running\<rparr>"
    for evs ls st
    by (simp_all add: process_start_def)
  note t = teardown_error_policies [OF h]
  from t [of destroy_surface_fails 1 1 a_session1] t [of destroy_context_fails_a 1 1 a_session1]
    t [of terminate_fails 1 1 a_session1] t [of quiet_driver 1 1 a_session1] h n
  show ?thesis by (simp add: Let_def s r p a_session1_def)
qed

theorem teardown_fatal_mt_counterexample:
  "ret (destroy_surface_fails 3 ''eglGetError'') \<noteq> EGL_SUCCESS
   \<and> calls (snd (run_state (thread_b_teardown destroy_surface_fails 1 1) process_start))
       = [(''glDeleteFramebuffers'', [1]), (''glDeleteTextures'', [1]),
          (''eglDestroySurface'', []), (''eglGetError'', [])]
   \<and> out (snd (run_state (thread_b_teardown destroy_surface_fails 1 1) process_start))
       = [EGLErrorAt EGL_BAD_SURFACE ''eglDestroySurface'']
   \<and> status (snd (run_state (thread_b_teardown destroy_surface_fails 1 1) process_start))
       = Exited (- 1)"
  by (simp add: thread_b_teardown_def assertEGLError_mt_def run_prims destroy_surface_fails_def
      test_driver_defs egl_enum_defs)

section \<open>The coordinator\<close>

text \<open>
  Claim C5, evaluated on the code. Whatever the driver answers, the coordinator makes
  these calls in this order: it starts session A, calls \<^verbatim>\<open>sleep\<close>, starts session B,
  joins A, joins B, and then releases the display connection once. The argument that
  \<^verbatim>\<open>sleep\<close> receives is 0: the \<^verbatim>\<open>0.5\<close> of the source is cut down to a whole number of
  seconds.
\<close>

theorem coordinator_sleeps_zero_seconds:
  "unsigned_of_double (1 / 2) = 0
   \<and> calls (snd (run_state (coordinator drv) process_start))
       = [(''pthread_create'', [threadA]), (''sleep'', [0]), (''pthread_create'', [threadB]),
          (''pthread_join'', [threadA]), (''pthread_join'', [threadB]),
          (''eglTerminate'', []), (''eglGetError'', [])]"
proof -
  have "\<lfloor>1 / 2 :: rat\<rfloor> = 0" by (simp add: floor_eq_iff)
  then have z: "unsigned_of_double (1 / 2) = 0" by (simp add: unsigned_of_double_def)
  show ?thesis
    by (simp add: z coordinator_def assertEGLError_mt_def run_prims process_start_def)
qed

section \<open>The loop of session A\<close>

lemma assertOpenGLError_mt_exits:
  "status_in {Running, Exited (- 1)} (assertOpenGLError_mt drv msg)"
  unfolding assertOpenGLError_mt_def by (intro status_in_intros) simp

lemma assertOpenGLError_mt_quiet:
  assumes "\<forall>i. ret (drv i ''glGetError'') = GL_NO_ERROR"
  shows "status_in {Running} (assertOpenGLError_mt drv msg)"
  using assms by (simp add: status_in_def assertOpenGLError_mt_def call_def)

lemma iteration_exits:
  "status_in {Running, Exited (- 1)} (thread_a_iteration drv glCtx a)"
  unfolding thread_a_iteration_def
  by (intro status_in_intros assertOpenGLError_mt_exits)

lemma iteration_quiet:
  assumes "\<forall>i. ret (drv i ''glGetError'') = GL_NO_ERROR"
  shows "status_in {Running} (thread_a_iteration drv glCtx a)"
  unfolding thread_a_iteration_def
  by (intro status_in_intros assertOpenGLError_mt_quiet assms)

lemma render_loop_stopped:
  assumes "render_loop drv glCtx a mRunning w = Some w'" and "mRunning \<noteq> 0"
  shows "status w' \<noteq> Running"
proof -
  have "mRunning \<noteq> 0 \<longrightarrow> status w' \<noteq> Running"
  proof (rule render_loop.raw_induct
      [where P = "\<lambda>drv glCtx a mRunning w y. mRunning \<noteq> 0 \<longrightarrow> status y \<noteq> Running",
       OF _ assms(1)])
    fix f :: "driver \<Rightarrow> GLContext \<Rightarrow> session_a \<Rightarrow> c_int \<Rightarrow> world \<Rightarrow> world option"
    fix drv glCtx a mRunning w y
    assume IH: "\<And>drv glCtx a mRunning w y. f drv glCtx a mRunning w = Some y \<Longrightarrow>
        mRunning \<noteq> 0 \<longrightarrow> status y \<noteq> Running"
      and eq: "(if status w \<noteq> Running then Some w
          else if mRunning \<noteq> 0
            then f drv glCtx a mRunning (snd (run_state (thread_a_iteration drv glCtx a) w))
            else Some w) = Some y"
    show "mRunning \<noteq> 0 \<longrightarrow> status y \<noteq> Running"
    proof
      assume m: "mRunning \<noteq> 0"
      show "status y \<noteq> Running"
      proof (cases "status w = Running")
        case False
        with eq show ?thesis by auto
      next
        case True
        with eq m have "f drv glCtx a mRunning
            (snd (run_state (thread_a_iteration drv glCtx a) w)) = Some y" by simp
        with IH m show ?thesis by blast
      qed
    qed
  qed
  with assms(2) show ?thesis by simp
qed

lemma render_loop_exited:
  assumes "render_loop drv glCtx a mRunning w = Some w'" and "mRunning \<noteq> 0"
    and "status w = Running"
  shows "status w' = Exited (- 1)"
proof -
  have "mRunning \<noteq> 0 \<longrightarrow> status w \<in> {Running, Exited (- 1)} \<longrightarrow> status w' = Exited (- 1)"
  proof (rule render_loop.raw_induct
      [where P = "\<lambda>drv glCtx a mRunning w y.
         mRunning \<noteq> 0 \<longrightarrow> status w \<in> {Running, Exited (- 1)} \<longrightarrow> status y = Exited (- 1)",
       OF _ assms(1)])
    fix f :: "driver \<Rightarrow> GLContext \<Rightarrow> session_a \<Rightarrow> c_int \<Rightarrow> world \<Rightarrow> world option"
    fix drv glCtx a mRunning w y
    assume IH: "\<And>drv glCtx a mRunning w y. f drv glCtx a mRunning w = Some y \<Longrightarrow>
        mRunning \<noteq> 0 \<longrightarrow> status w \<in> {Running, Exited (- 1)} \<longrightarrow> status y = Exited (- 1)"
      and eq: "(if status w \<noteq> Running then Some w
          else if mRunning \<noteq> 0
            then f drv glCtx a mRunning (snd (run_state (thread_a_iteration drv glCtx a) w))
            else Some w) = Some y"
    show "mRunning \<noteq> 0 \<longrightarrow> status w \<in> {Running, Exited (- 1)} \<longrightarrow> status y = Exited (- 1)"
    proof (intro impI)
      assume m: "mRunning \<noteq> 0" and s: "status w \<in> {Running, Exited (- 1)}"
      show "status y = Exited (- 1)"
      proof (cases "status w = Running")
        case False
        with eq s show ?thesis by auto
      next
        case True
        with eq m have "f drv glCtx a mRunning
            (snd (run_state (thread_a_iteration drv glCtx a) w)) = Some y" by simp
        moreover have "status (snd (run_state (thread_a_iteration drv glCtx a) w))
            \<in> {Running, Exited (- 1)}"
          using iteration_exits [of drv glCtx a] s unfolding status_in_def by blast
        ultimately show ?thesis using IH m by blast
      qed
    qed
  qed
  with assms show ?thesis by simp
qed

lemma thread_a_teardown_stopped:
  "status w \<noteq> Running \<Longrightarrow> run_state (thread_a_teardown drv a) w = ((), w)"
  by (simp add: thread_a_teardown_def assertEGLError_mt_def run_prims)

lemma render_loop_first_check_fails:
  "render_loop bind_framebuffer_fails glCtx512 a_session1 1 process_start
     = Some \<lparr>calls = [(''glBindFramebuffer'', [1]), (''glGetError'', [])],
             out = [GLErrorAt GL_INVALID_OPERATION ''glBindFramebuffer''],
             status = Exited (- 1)\<rparr>"
proof -
  have i: "snd (run_state (thread_a_iteration bind_framebuffer_fails glCtx512 a_session1)
             process_start)
      = \<lparr>calls = [(''glBindFramebuffer'', [1]), (''glGetError'', [])],
         out = [GLErrorAt GL_INVALID_OPERATION ''glBindFramebuffer''],
         status = Exited (- 1)\<rparr>"
    by (simp add: thread_a_iteration_def assertOpenGLError_mt_def run_prims
        bind_framebuffer_fails_def test_driver_defs egl_enum_defs)
  have "render_loop bind_framebuffer_fails glCtx512 a_session1 1 process_start
      = render_loop bind_framebuffer_fails glCtx512 a_session1 1
          (snd (run_state (thread_a_iteration bind_framebuffer_fails glCtx512 a_session1)
             process_start))"
    by (subst render_loop.simps) (simp add: process_start_def)
  also have "\<dots> = Some \<lparr>calls = [(''glBindFramebuffer'', [1]), (''glGetError'', [])],
             out = [GLErrorAt GL_INVALID_OPERATION ''glBindFramebuffer''],
             status = Exited (- 1)\<rparr>"
    unfolding i by (subst render_loop.simps) simp
  finally show ?thesis .
qed

lemma render_loop_passes:
  "\<forall>k < n. status (passes drv glCtx a k w) = Running \<Longrightarrow>
     render_loop drv glCtx a 1 w = render_loop drv glCtx a 1 (passes drv glCtx a n w)"
proof (induction n arbitrary: w)
  case 0
  show ?case by simp
next
  case (Suc n)
  from Suc.prems [rule_format, of 0] have r: "status w = Running" by simp
  have "\<forall>k < n. status (passes drv glCtx a k
      (snd (run_state (thread_a_iteration drv glCtx a) w))) = Running"
  proof (intro allI impI)
    fix k assume "k < n"
    with Suc.prems [rule_format, of "Suc k"]
    show "status (passes drv glCtx a k
      (snd (run_state (thread_a_iteration drv glCtx a) w))) = Running" by simp
  qed
  from Suc.IH [OF this]
  have "render_loop drv glCtx a 1 (snd (run_state (thread_a_iteration drv glCtx a) w))
      = render_loop drv glCtx a 1 (passes drv glCtx a (Suc n) w)" by simp
  moreover from r
  have "render_loop drv glCtx a 1 w
      = render_loop drv glCtx a 1 (snd (run_state (thread_a_iteration drv glCtx a) w))"
    by (subst render_loop.simps) simp
  ultimately show ?case by simp
qed

lemma render_loop_returns_stopped_pass:
  assumes "render_loop drv glCtx a mRunning w = Some w'" and "mRunning \<noteq> 0"
  shows "\<exists>n. status (passes drv glCtx a n w) \<noteq> Running"
proof -
  have "mRunning \<noteq> 0 \<longrightarrow> (\<exists>n. status (passes drv glCtx a n w) \<noteq> Running)"
  proof (rule render_loop.raw_induct
      [where P = "\<lambda>drv glCtx a mRunning w y.
         mRunning \<noteq> 0 \<longrightarrow> (\<exists>n. status (passes drv glCtx a n w) \<noteq> Running)",
       OF _ assms(1)])
    fix f :: "driver \<Rightarrow> GLContext \<Rightarrow> session_a \<Rightarrow> c_int \<Rightarrow> world \<Rightarrow> world option"
    fix drv glCtx a mRunning w y
    assume IH: "\<And>drv glCtx a mRunning w y. f drv glCtx a mRunning w = Some y \<Longrightarrow>
        mRunning \<noteq> 0 \<longrightarrow> (\<exists>n. status (passes drv glCtx a n w) \<noteq> Running)"
      and eq: "(if status w \<noteq> Running then Some w
          else if mRunning \<noteq> 0
            then f drv glCtx a mRunning (snd (run_state (thread_a_iteration drv glCtx a) w))
            else Some w) = Some y"
    show "mRunning \<noteq> 0 \<longrightarrow> (\<exists>n. status (passes drv glCtx a n w) \<noteq> Running)"
    proof
      assume m: "mRunning \<noteq> 0"
      show "\<exists>n. status (passes drv glCtx a n w) \<noteq> Running"
      proof (cases "status w = Running")
        case False
        then have "status (passes drv glCtx a 0 w) \<noteq> Running" by simp
        then show ?thesis by blast
      next
        case True
        with eq m have "f drv glCtx a mRunning
            (snd (run_state (thread_a_iteration drv glCtx a) w)) = Some y" by simp
        with IH m obtain n where "status (passes drv glCtx a n
            (snd (run_state (thread_a_iteration drv glCtx a) w))) \<noteq> Running" by blast
        then have "status (passes drv glCtx a (Suc n) w) \<noteq> Running" by simp
        then show ?thesis by blast
      qed
    qed
  qed
  with assms(2) show ?thesis by simp
qed

lemma passes_quiet:
  assumes q: "\<forall>i. ret (drv i ''glGetError'') = GL_NO_ERROR"
  shows "status w = Running \<Longrightarrow> status (passes drv glCtx a n w) = Running"
proof (induction n arbitrary: w)
  case 0
  then show ?case by simp
next
  case (Suc n)
  have "status (snd (run_state (thread_a_iteration drv glCtx a) w)) = Running"
    using iteration_quiet [of drv glCtx a] q Suc.prems unfolding status_in_def by simp
  from Suc.IH [OF this] show ?case by simp
qed

text \<open>
  Claim C6. The guard \<^verbatim>\<open>mRunning\<close> is 1 and no statement of the body assigns it, so the
  loop of session A has no exit of its own and goes on for as long as the process
  lives. It hands control back to \<^verbatim>\<open>thread_func_a\<close> only in a process that has ended
  (with \<^verbatim>\<open>exit(-1)\<close>, when a running process entered it), and the teardown written after
  the loop then does nothing. Whenever the process is still running after a pass, the
  next pass follows; if it is running after every pass, the loop never comes back.
  \<^verbatim>\<open>thread_func_a\<close>, once it has reached the loop, ends as the loop ends.
\<close>

theorem render_loop_never_returns:
  "(render_loop drv glCtx a 1 w = Some w' \<longrightarrow>
      status w' \<noteq> Running \<and> run_state (thread_a_teardown drv a) w' = ((), w'))
   \<and> (status w = Running \<and> render_loop drv glCtx a 1 w = Some w' \<longrightarrow>
        status w' = Exited (- 1))
   \<and> ((\<forall>k < n. status (passes drv glCtx a k w) = Running) \<longrightarrow>
        render_loop drv glCtx a 1 w = render_loop drv glCtx a 1 (passes drv glCtx a n w))
   \<and> ((\<forall>n. status (passes drv glCtx a n w) = Running) \<longrightarrow>
        render_loop drv glCtx a 1 w = None)
   \<and> (run_state (thread_a_egl_setup drv glCtx) w0 = (True, w1)
        \<and> run_state (thread_a_resources drv glCtx) w1 = (Some a, w) \<longrightarrow>
        thread_func_a drv glCtx w0 = render_loop drv glCtx a 1 w)"
proof (intro conjI impI)
  assume s: "render_loop drv glCtx a 1 w = Some w'"
  then show "status w' \<noteq> Running" by (rule render_loop_stopped) simp
  then show "run_state (thread_a_teardown drv a) w' = ((), w')"
    by (rule thread_a_teardown_stopped)
next
  assume "status w = Running \<and> render_loop drv glCtx a 1 w = Some w'"
  then show "status w' = Exited (- 1)"
    using render_loop_exited [of drv glCtx a 1 w w'] by simp
next
  assume "\<forall>k < n. status (passes drv glCtx a k w) = Running"
  then show "render_loop drv glCtx a 1 w = render_loop drv glCtx a 1 (passes drv glCtx a n w)"
    by (rule render_loop_passes)
next
  assume alive: "\<forall>n. status (passes drv glCtx a n w) = Running"
  show "render_loop drv glCtx a 1 w = None"
  proof (cases "render_loop drv glCtx a 1 w")
    case None
    then show ?thesis .
  next
    case (Some y)
    from render_loop_returns_stopped_pass [OF this] alive show ?thesis by simp
  qed
next
  assume r: "run_state (thread_a_egl_setup drv glCtx) w0 = (True, w1)
        \<and> run_state (thread_a_resources drv glCtx) w1 = (Some a, w)"
  show "thread_func_a drv glCtx w0 = render_loop drv glCtx a 1 w"
  proof (cases "render_loop drv glCtx a 1 w")
    case None
    with r show ?thesis by (simp add: thread_func_a_def)
  next
    case (Some w3)
    then have "status w3 \<noteq> Running" by (rule render_loop_stopped) simp
    then have "run_state (thread_a_teardown drv a) w3 = ((), w3)"
      by (rule thread_a_teardown_stopped)
    with r Some show ?thesis by (simp add: thread_func_a_def)
  qed
qed

lemma thread_a_reaches_loop_quiet:
  "fst (run_state (thread_a_egl_setup quiet_driver glCtx512) process_start)
   \<and> fst (run_state (thread_a_resources quiet_driver glCtx512)
           (snd (run_state (thread_a_egl_setup quiet_driver glCtx512) process_start)))
       = Some a_session1
   \<and> status (snd (run_state (thread_a_resources quiet_driver glCtx512)
           (snd (run_state (thread_a_egl_setup quiet_driver glCtx512) process_start))))
       = Running"
proof -
  have b: "\<not> inline_bufferSize 512 512 <s 0"
    by (simp add: inline_bufferSize_def inline_stride_eq word_sless_alt)
  have s: "inline_stride 512 = 2048" by (simp add: inline_stride_eq)
  show ?thesis
    by (simp add: thread_a_egl_setup_def thread_a_resources_def CompileProgram_def
        LoadShader_def CreateSimpleTexture2D_def assertEGLError_mt_def assertOpenGLError_mt_def
        run_prims test_driver_defs egl_enum_defs Let_def b s)
qed

theorem render_loop_never_returns_witness:
  "render_loop bind_framebuffer_fails glCtx512 a_session1 1 process_start
       = Some \<lparr>calls = [(''glBindFramebuffer'', [1]), (''glGetError'', [])],
               out = [GLErrorAt GL_INVALID_OPERATION ''glBindFramebuffer''],
               status = Exited (- 1)\<rparr>
   \<and> run_state (thread_a_teardown bind_framebuffer_fails a_session1)
         \<lparr>calls = [(''glBindFramebuffer'', [1]), (''glGetError'', [])],
           out = [GLErrorAt GL_INVALID_OPERATION ''glBindFramebuffer''],
           status = Exited (- 1)\<rparr>
       = ((), \<lparr>calls = [(''glBindFramebuffer'', [1]), (''glGetError'', [])],
               out = [GLErrorAt GL_INVALID_OPERATION ''glBindFramebuffer''],
               status = Exited (- 1)\<rparr>)
   \<and> status process_start = Running
   \<and> status (passes quiet_driver glCtx512 a_session1 1 process_start) = Running
   \<and> status (passes quiet_driver glCtx512 a_session1 2 process_start) = Running
   \<and> render_loop quiet_driver glCtx512 a_session1 1 process_start
       = render_loop quiet_driver glCtx512 a_session1 1
           (passes quiet_driver glCtx512 a_session1 3 process_start)
   \<and> render_loop quiet_driver glCtx512 a_session1 1 process_start = None
   \<and> thread_func_a quiet_driver glCtx512 process_start = None"
proof -
  have q: "\<forall>i. ret (quiet_driver i ''glGetError'') = GL_NO_ERROR"
    by (simp add: quiet_driver_def)
  have h: "status process_start = Running" by (simp add: process_start_def)
  have alive: "\<forall>n. status (passes quiet_driver glCtx512 a_session1 n process_start) = Running"
    using passes_quiet [of quiet_driver process_start glCtx512 a_session1] q h by simp
  from render_loop_never_returns [of quiet_driver glCtx512 a_session1 process_start _ 3] alive
  have p: "render_loop quiet_driver glCtx512 a_session1 1 process_start
       = render_loop quiet_driver glCtx512 a_session1 1
           (passes quiet_driver glCtx512 a_session1 3 process_start)"
    and n: "render_loop quiet_driver glCtx512 a_session1 1 process_start = None"
    by blast+
  define w1 where "w1 = snd (run_state (thread_a_egl_setup quiet_driver glCtx512) process_start)"
  define w2 where "w2 = snd (run_state (thread_a_resources quiet_driver glCtx512) w1)"
  have r: "run_state (thread_a_egl_setup quiet_driver glCtx512) process_start = (True, w1)"
    "run_state (thread_a_resources quiet_driver glCtx512) w1 = (Some a_session1, w2)"
    "status w2 = Running"
    using thread_a_reaches_loop_quiet unfolding w1_def w2_def by (simp_all add: prod_eq_iff)
  have alive2: "\<forall>n. status (passes quiet_driver glCtx512 a_session1 n w2) = Running"
    using passes_quiet [of quiet_driver w2 glCtx512 a_session1] q r(3) by simp
  from render_loop_never_returns
    [of quiet_driver glCtx512 a_session1 w2 w2 0 process_start w1] r alive2
  have t: "thread_func_a quiet_driver glCtx512 process_start = None" by simp
  note f = render_loop_first_check_fails
  from render_loop_never_returns [of bind_framebuffer_fails glCtx512 a_session1 process_start] f
  have "run_state (thread_a_teardown bind_framebuffer_fails a_session1)
         \<lparr>calls = [(''glBindFramebuffer'', [1]), (''glGetError'', [])],
           out = [GLErrorAt GL_INVALID_OPERATION ''glBindFramebuffer''],
           status = Exited (- 1)\<rparr>
       = ((), \<lparr>calls = [(''glBindFramebuffer'', [1]), (''glGetError'', [])],
               out = [GLErrorAt GL_INVALID_OPERATION ''glBindFramebuffer''],
               status = Exited (- 1)\<rparr>)"
    by blast
  with h alive [rule_format, of 1] alive [rule_format, of 2] p n t f show ?thesis by blast
qed

section \<open>The client version requested for a context\<close>

lemma only_adds_call: "P (name, args) \<Longrightarrow> only_adds P (call drv name args)"
  by (simp add: only_adds_def call_def)

lemma only_adds_printf: "only_adds P (printf l)"
  by (simp add: only_adds_def printf_def)

lemma only_adds_exit: "only_adds P (exit c)"
  by (simp add: only_adds_def exit_def)

lemma only_adds_vector_ctor: "only_adds P (vector_ctor n)"
  by (simp add: only_adds_def vector_ctor_def)

lemma only_adds_return: "only_adds P (State_Monad.return x)"
  by (simp add: only_adds_def)

lemma only_adds_bind:
  assumes "only_adds P m" and "\<And>x. only_adds P (f x)"
  shows "only_adds P (State_Monad.bind m f)"
proof (unfold only_adds_def, intro allI)
  fix w
  obtain x w1 where r: "run_state m w = (x, w1)" by (cases "run_state m w")
  from assms(1) r obtain e1 where e1: "calls w1 = calls w @ e1" "\<forall>ev \<in> set e1. P ev"
    unfolding only_adds_def by (metis snd_conv)
  from assms(2) [of x] obtain e2
    where e2: "calls (snd (run_state (f x) w1)) = calls w1 @ e2" "\<forall>ev \<in> set e2. P ev"
    unfolding only_adds_def by blast
  have "calls (snd (run_state (State_Monad.bind m f) w)) = calls w @ (e1 @ e2)"
    using r e1(1) e2(1) by simp
  moreover have "\<forall>ev \<in> set (e1 @ e2). P ev" using e1(2) e2(2) by auto
  ultimately show "\<exists>evs. calls (snd (run_state (State_Monad.bind m f) w)) = calls w @ evs
      \<and> (\<forall>ev \<in> set evs. P ev)" by blast
qed

lemma only_adds_if:
  "only_adds P a \<Longrightarrow> only_adds P b \<Longrightarrow> only_adds P (if c then a else b)"
  by simp

lemma only_adds_case_prod:
  "(\<And>a b. only_adds P (f a b)) \<Longrightarrow> only_adds P (case p of (a, b) \<Rightarrow> f a b)"
  by (cases p) simp

lemmas only_adds_intros =
  only_adds_bind only_adds_if only_adds_case_prod only_adds_return only_adds_printf
  only_adds_exit only_adds_vector_ctor only_adds_call

lemma only_adds_new_events:
  assumes "only_adds P m" and "ev \<in> set (new_events m w)"
  shows "P ev"
proof -
  from assms(1) obtain evs
    where e: "calls (snd (run_state m w)) = calls w @ evs" "\<forall>ev \<in> set evs. P ev"
    unfolding only_adds_def by blast
  then have "new_events m w = evs" by (simp add: new_events_def)
  with assms(2) e(2) show ?thesis by simp
qed

lemma version_checks:
  "requests_version v (''eglGetError'', [])" "requests_version v (''glGetError'', [])"
  by (simp_all add: requests_version_def)

lemma version_assertEGLError_mt: "only_adds (requests_version v) (assertEGLError_mt drv msg)"
  unfolding assertEGLError_mt_def by (intro only_adds_intros version_checks)

lemma version_assertOpenGLError_mt:
  "only_adds (requests_version v) (assertOpenGLError_mt drv msg)"
  unfolding assertOpenGLError_mt_def by (intro only_adds_intros version_checks)

lemma version_assertEGLError_single:
  "only_adds (requests_version v) (assertEGLError_single drv msg)"
  unfolding assertEGLError_single_def by (intro only_adds_intros version_checks)

lemma version_assertOpenGLError_single:
  "only_adds (requests_version v) (assertOpenGLError_single drv msg)"
  unfolding assertOpenGLError_single_def by (intro only_adds_intros version_checks)

lemmas version_asserts = version_assertEGLError_mt version_assertOpenGLError_mt
  version_assertEGLError_single version_assertOpenGLError_single

lemma version_LoadShader: "only_adds (requests_version v) (LoadShader drv type shaderSrc)"
  unfolding LoadShader_def Let_def
  by (intro only_adds_intros) (simp_all add: requests_version_def)

lemma version_CompileProgram:
  "only_adds (requests_version v) (CompileProgram drv vsSource fsSource)"
  unfolding CompileProgram_def Let_def
  by (intro only_adds_intros version_LoadShader) (simp_all add: requests_version_def)

lemma version_init_triangle: "only_adds (requests_version v) (init_triangle drv)"
  unfolding init_triangle_def Let_def
  by (intro only_adds_intros version_LoadShader) (simp_all add: requests_version_def)

lemma version_draw_triangle_mt:
  "only_adds (requests_version v) (draw_triangle_mt drv width height)"
  unfolding draw_triangle_mt_def
  by (intro only_adds_intros version_CompileProgram) (simp_all add: requests_version_def)

lemma version_draw_triangle_single:
  "only_adds (requests_version v) (draw_triangle_single drv width height)"
  unfolding draw_triangle_single_def
  by (intro only_adds_intros version_init_triangle) (simp_all add: requests_version_def)

lemma version_CreateSimpleTexture2D:
  "only_adds (requests_version v) (CreateSimpleTexture2D drv)"
  unfolding CreateSimpleTexture2D_def Let_def
  by (intro only_adds_intros) (simp_all add: requests_version_def)

lemma version_thread_func_b: "only_adds (requests_version 2) (thread_func_b drv glCtx)"
  unfolding thread_func_b_def thread_b_egl_setup_def thread_b_render_def thread_b_teardown_def
  by (intro only_adds_intros version_asserts version_draw_triangle_mt)
     (simp_all add: requests_version_def)

lemma version_thread_a_egl_setup:
  "only_adds (requests_version 2) (thread_a_egl_setup drv glCtx)"
  unfolding thread_a_egl_setup_def
  by (intro only_adds_intros version_asserts) (simp_all add: requests_version_def)

lemma version_thread_a_resources:
  "only_adds (requests_version 2) (thread_a_resources drv glCtx)"
  unfolding thread_a_resources_def
  by (intro only_adds_intros version_asserts version_CompileProgram
      version_CreateSimpleTexture2D)
     (simp_all add: requests_version_def)

lemma version_thread_a_iteration:
  "only_adds (requests_version 2) (thread_a_iteration drv glCtx a)"
  unfolding thread_a_iteration_def
  by (intro only_adds_intros version_asserts) (simp_all add: requests_version_def)

lemma version_thread_a_teardown:
  "only_adds (requests_version 2) (thread_a_teardown drv a)"
  unfolding thread_a_teardown_def
  by (intro only_adds_intros version_asserts) (simp_all add: requests_version_def)

lemma version_main_mt: "only_adds (requests_version 2) (main_mt drv)"
  unfolding main_mt_def egl_setup_mt_def coordinator_def Let_def
  by (intro only_adds_intros version_asserts) (simp_all add: requests_version_def)

lemma version_egl_setup_single:
  "only_adds (requests_version es_version) (egl_setup_single drv width height)"
  unfolding egl_setup_single_def Let_def
  by (intro only_adds_intros version_asserts) (simp_all add: requests_version_def)

lemma version_main_single: "only_adds (requests_version es_version) (main_single drv)"
  unfolding main_single_def render_target_single_def readback_single_def
    teardown_single_def Let_def
  by (intro only_adds_intros version_asserts version_draw_triangle_single
      version_egl_setup_single)
     (simp_all add: requests_version_def)

text \<open>
  Claim C9, as the code has it. Every call of \<^verbatim>\<open>eglCreateContext\<close> that multithreads.cpp
  makes, in session B, in each part of session A and in \<^verbatim>\<open>main\<close>, passes
  \<^verbatim>\<open>EGL_CONTEXT_CLIENT_VERSION\<close> with the value 2. Every such call of offscreen\_egl.cpp,
  in the whole of \<^verbatim>\<open>main\<close> and so in its setup, passes the value of \<^verbatim>\<open>es_version\<close>,
  which is 3.
\<close>

theorem context_client_versions:
  "(\<forall>ev \<in> set (new_events (thread_func_b drv glCtx) w)
          \<union> set (new_events (thread_a_egl_setup drv glCtx) w)
          \<union> set (new_events (thread_a_resources drv glCtx) w)
          \<union> set (new_events (thread_a_iteration drv glCtx a) w)
          \<union> set (new_events (thread_a_teardown drv a) w)
          \<union> set (new_events (main_mt drv) w).
      fst ev = ''eglCreateContext'' \<longrightarrow> snd ev = [EGL_CONTEXT_CLIENT_VERSION, 2, EGL_NONE])
   \<and> (\<forall>ev \<in> set (new_events (main_single drv) w)
            \<union> set (new_events (egl_setup_single drv width height) w).
        fst ev = ''eglCreateContext'' \<longrightarrow> snd ev = [EGL_CONTEXT_CLIENT_VERSION, 3, EGL_NONE])"
proof (intro conjI ballI)
  fix ev
  assume "ev \<in> set (new_events (thread_func_b drv glCtx) w)
          \<union> set (new_events (thread_a_egl_setup drv glCtx) w)
          \<union> set (new_events (thread_a_resources drv glCtx) w)
          \<union> set (new_events (thread_a_iteration drv glCtx a) w)
          \<union> set (new_events (thread_a_teardown drv a) w)
          \<union> set (new_events (main_mt drv) w)"
  then have "requests_version 2 ev"
    by (elim UnE)
      (erule only_adds_new_events [rotated],
        rule version_thread_func_b version_thread_a_egl_setup version_thread_a_resources
          version_thread_a_iteration version_thread_a_teardown version_main_mt)+
  then show "fst ev = ''eglCreateContext'' \<longrightarrow> snd ev = [EGL_CONTEXT_CLIENT_VERSION, 2, EGL_NONE]"
    by (simp add: requests_version_def)
next
  fix ev
  assume "ev \<in> set (new_events (main_single drv) w)
            \<union> set (new_events (egl_setup_single drv width height) w)"
  then have "requests_version es_version ev"
    by (elim UnE)
      (erule only_adds_new_events [rotated],
        rule version_main_single version_egl_setup_single)+
  then show "fst ev = ''eglCreateContext'' \<longrightarrow> snd ev = [EGL_CONTEXT_CLIENT_VERSION, 3, EGL_NONE]"
    by (simp add: requests_version_def es_version_def)
qed

lemma new_events_thread_a_egl_setup_quiet:
  "new_events (thread_a_egl_setup quiet_driver glCtx512) process_start
      = [(''eglCreatePbufferSurface'', [EGL_WIDTH, 512, EGL_HEIGHT, 512, EGL_NONE]),
         (''eglGetError'', []),
         (''eglCreateContext'', [EGL_CONTEXT_CLIENT_VERSION, 2, EGL_NONE]),
         (''eglGetError'', []), (''eglMakeCurrent'', [])]"
  by (simp add: new_events_def thread_a_egl_setup_def assertEGLError_mt_def run_prims
      test_driver_defs egl_enum_defs)

lemma new_events_egl_setup_single_quiet:
  "new_events (egl_setup_single quiet_driver 512 512) process_start
     = [(''eglGetDisplay'', []), (''eglGetError'', []), (''eglInitialize'', []),
        (''eglGetError'', []), (''eglGetConfigs'', []), (''eglGetError'', []),
        (''eglChooseConfig'', []), (''eglChooseConfig'', []), (''eglBindAPI'', []),
        (''eglGetError'', []),
        (''eglCreateContext'', [EGL_CONTEXT_CLIENT_VERSION, 3, EGL_NONE]),
        (''eglGetError'', []),
        (''eglCreatePbufferSurface'', [EGL_WIDTH, 512, EGL_HEIGHT, 512, EGL_NONE]),
        (''eglGetError'', []), (''eglMakeCurrent'', []), (''eglGetError'', [])]"
  by (simp add: new_events_def egl_setup_single_def assertEGLError_single_def run_prims
      test_driver_defs egl_enum_defs es_version_def Let_def word_sless_alt)

theorem context_client_versions_witness:
  "new_events (thread_a_egl_setup quiet_driver glCtx512) process_start ! 2
     \<in> set (new_events (thread_a_egl_setup quiet_driver glCtx512) process_start)
   \<and> fst (new_events (thread_a_egl_setup quiet_driver glCtx512) process_start ! 2)
       = ''eglCreateContext''
   \<and> snd (new_events (thread_a_egl_setup quiet_driver glCtx512) process_start ! 2)
       = [EGL_CONTEXT_CLIENT_VERSION, 2, EGL_NONE]
   \<and> new_events (egl_setup_single quiet_driver 512 512) process_start ! 10
     \<in> set (new_events (egl_setup_single quiet_driver 512 512) process_start)
   \<and> fst (new_events (egl_setup_single quiet_driver 512 512) process_start ! 10)
       = ''eglCreateContext''
   \<and> snd (new_events (egl_setup_single quiet_driver 512 512) process_start ! 10)
       = [EGL_CONTEXT_CLIENT_VERSION, 3, EGL_NONE]"
proof -
  note n = new_events_thread_a_egl_setup_quiet
  have m: "new_events (thread_a_egl_setup quiet_driver glCtx512) process_start ! 2
      \<in> set (new_events (thread_a_egl_setup quiet_driver glCtx512) process_start)"
    unfolding n by simp
  have f: "fst (new_events (thread_a_egl_setup quiet_driver glCtx512) process_start ! 2)
      = ''eglCreateContext''"
    unfolding n by simp
  note n' = new_events_egl_setup_single_quiet
  have m': "new_events (egl_setup_single quiet_driver 512 512) process_start ! 10
      \<in> set (new_events (egl_setup_single quiet_driver 512 512) process_start)"
    unfolding n' by simp
  have f': "fst (new_events (egl_setup_single quiet_driver 512 512) process_start ! 10)
      = ''eglCreateContext''"
    unfolding n' by simp
  from context_client_versions [of quiet_driver glCtx512 process_start a_session1 512 512] m f
  have v: "snd (new_events (thread_a_egl_setup quiet_driver glCtx512) process_start ! 2)
       = [EGL_CONTEXT_CLIENT_VERSION, 2, EGL_NONE]"
    by blast
  from context_client_versions [of quiet_driver glCtx512 process_start a_session1 512 512] m' f'
  have v': "snd (new_events (egl_setup_single quiet_driver 512 512) process_start ! 10)
       = [EGL_CONTEXT_CLIENT_VERSION, 3, EGL_NONE]"
    by blast
  from m f v m' f' v' show ?thesis by blast
qed

text \<open>The context of offscreen\_egl.cpp is requested with version 3, not 2.\<close>

theorem context_version_single_counterexample:
  "new_events (egl_setup_single quiet_driver 512 512) process_start ! 10
     = (''eglCreateContext'', [EGL_CONTEXT_CLIENT_VERSION, 3, EGL_NONE])
   \<and> [EGL_CONTEXT_CLIENT_VERSION, 3, EGL_NONE] \<noteq> [EGL_CONTEXT_CLIENT_VERSION, 2, EGL_NONE]"
  unfolding new_events_egl_setup_single_quiet by simp

end
